theory Spec2Isabelle
  imports Main
begin

section \<open>Data model of the imaging-device core (fpi-dev-img.c)\<close>

text \<open>
  The enumerations of \<^verbatim>\<open>fpi-dev-img.h\<close> as the source file uses them. The acquisition
  state written as the literal \<^verbatim>\<open>0\<close> by \<^verbatim>\<open>fpi_imgdev_deactivate_complete\<close> is the
  first enumerator, here \<open>IMG_ACQUIRE_STATE_NONE\<close> (the specification's Inactive).
\<close>

datatype fp_imgdev_action =
    IMG_ACTION_NONE
  | IMG_ACTION_ENROLL
  | IMG_ACTION_VERIFY
  | IMG_ACTION_IDENTIFY
  | IMG_ACTION_CAPTURE

datatype fp_imgdev_enroll_state =
    IMG_ACQUIRE_STATE_NONE
  | IMG_ACQUIRE_STATE_ACTIVATING
  | IMG_ACQUIRE_STATE_AWAIT_FINGER_ON
  | IMG_ACQUIRE_STATE_AWAIT_IMAGE
  | IMG_ACQUIRE_STATE_AWAIT_FINGER_OFF
  | IMG_ACQUIRE_STATE_DEACTIVATING

datatype fp_imgdev_state =
    IMGDEV_STATE_INACTIVE
  | IMGDEV_STATE_AWAIT_FINGER_ON
  | IMGDEV_STATE_CAPTURE
  | IMGDEV_STATE_AWAIT_FINGER_OFF

datatype fp_print_data_type = PRINT_DATA_RAW | PRINT_DATA_NBIS_MINUTIAE

text \<open>A template item: its declared length and its payload bytes.\<close>

datatype fp_print_data_item = Print_item (item_length: nat) (item_payload: "nat list")

text \<open>
  \<^verbatim>\<open>struct fp_print_data\<close>: the fields this file reads and writes, \<^verbatim>\<open>type\<close> and the
  singly linked list \<^verbatim>\<open>prints\<close> (head first).
\<close>

record fp_print_data =
  data_type :: fp_print_data_type
  prints :: "fp_print_data_item list"

text \<open>
  \<^verbatim>\<open>struct fp_img\<close>: width, height, the pixel buffer, and \<^verbatim>\<open>minutiae\<close>, which is
  \<open>None\<close> for a null pointer and otherwise holds \<^verbatim>\<open>minutiae->num\<close>.
\<close>

record fp_img =
  width :: int
  height :: int
  pixels :: "nat list"
  minutiae :: "int option"

text \<open>
  \<^verbatim>\<open>struct fp_dev\<close> (the parent device) and \<^verbatim>\<open>struct fp_img_dev\<close>. The two C objects
  point at each other; the model nests the parent in the imaging device, and a function
  that takes \<^verbatim>\<open>struct fp_dev *dev\<close> and reads \<^verbatim>\<open>dev->img_dev\<close> takes the pair.
  A null pointer is \<open>None\<close>; \<^verbatim>\<open>identify_gallery\<close> is the null-terminated array.
\<close>

record fp_dev =
  nr_enroll_stages :: int
  unconditional_capture :: bool
  verify_data :: "fp_print_data option"
  identify_gallery :: "fp_print_data list"

record fp_img_dev =
  parent :: fp_dev
  action :: fp_imgdev_action
  action_state :: fp_imgdev_enroll_state
  action_result :: int
  enroll_stage :: int
  enroll_data :: "fp_print_data option"
  acquire_img :: "fp_img option"
  acquire_data :: "fp_print_data option"
  identify_match_offset :: nat

text \<open>
  \<^verbatim>\<open>struct fp_img_driver\<close>: the declared geometry and threshold, and the optional
  callables. A callable is \<open>None\<close> when the driver leaves the slot null; otherwise it is
  the status it returns. Driver callables complete through the \<^verbatim>\<open>*_complete\<close> functions
  of this file, which are separate calls in the model.
\<close>

record fp_img_driver =
  img_width :: int
  img_height :: int
  bz3_threshold :: int
  drv_open :: "(nat \<Rightarrow> int) option"
  drv_close :: bool
  drv_change_state :: "(fp_imgdev_state \<Rightarrow> int) option"
  drv_activate :: "(fp_imgdev_state \<Rightarrow> int) option"
  drv_deactivate :: bool

text \<open>
  Everything a call does besides updating the device record is an event of its trace:
  calls into the driver, the upward \<^verbatim>\<open>fpi_drvcb_*\<close> callbacks with their arguments, and
  the release of an image or a template.
\<close>

datatype event =
    Drv_open nat
  | Drv_close
  | Drv_change_state fp_imgdev_state
  | Drv_activate fp_imgdev_state
  | Drv_deactivate
  | Drvcb_open_complete int
  | Drvcb_close_complete
  | Drvcb_enroll_started int
  | Drvcb_verify_started int
  | Drvcb_identify_started int
  | Drvcb_capture_started int
  | Drvcb_enroll_stage_completed int "fp_print_data option" "fp_img option"
  | Drvcb_report_verify_result int "fp_img option"
  | Drvcb_report_identify_result int nat "fp_img option"
  | Drvcb_report_capture_result int "fp_img option"
  | Drvcb_enroll_stopped
  | Drvcb_verify_stopped
  | Drvcb_identify_stopped
  | Drvcb_capture_stopped
  | Img_free fp_img
  | Print_data_free fp_print_data

type_synonym outcome = "fp_img_dev \<times> event list"

datatype fault = Bug_abort | Null_dereference

text \<open>
  What the file uses and does not define, taken as parameters:
  \<^item> the result codes of \<^verbatim>\<open>fprint.h\<close>;
  \<^item> whether a failed \<^verbatim>\<open>BUG_ON\<close> aborts;
  \<^item> \<^verbatim>\<open>sizeof(struct xyt_struct)\<close>, the type \<^verbatim>\<open>fpi_print_data_new\<close> gives a new template,
    and \<^verbatim>\<open>fpi_print_data_item_new\<close>;
  \<^item> the image collaborators: \<^verbatim>\<open>fpi_img_is_sane\<close>, \<^verbatim>\<open>fp_img_standardize\<close> (the image
    after the call), \<^verbatim>\<open>fpi_img_to_print_data\<close> (its status, the image after the call and
    what it stored through \<^verbatim>\<open>ret\<close>), \<^verbatim>\<open>fpi_img_compare_print_data\<close> (the score) and
    \<^verbatim>\<open>fpi_img_compare_print_data_to_gallery\<close> (its result and the value of the local
    \<^verbatim>\<open>match_offset\<close> after the call);
  \<^item> \<open>caller\<close>: what the front end does to the device record inside an upward
    callback, before the callback returns.
\<close>

record fpi_env =
  FP_ENROLL_COMPLETE :: int
  FP_ENROLL_FAIL :: int
  FP_ENROLL_PASS :: int
  FP_ENROLL_RETRY :: int
  FP_VERIFY_NO_MATCH :: int
  FP_VERIFY_MATCH :: int
  FP_CAPTURE_COMPLETE :: int
  bug_is_fatal :: bool
  sizeof_xyt_struct :: nat
  new_print_data_type :: fp_print_data_type
  fpi_print_data_item_new :: "nat \<Rightarrow> fp_print_data_item"
  fpi_img_is_sane :: "fp_img \<Rightarrow> bool"
  fp_img_standardize :: "fp_img \<Rightarrow> fp_img"
  fpi_img_to_print_data :: "fp_img \<Rightarrow> int \<times> fp_img \<times> fp_print_data option"
  fpi_img_compare_print_data :: "fp_print_data option \<Rightarrow> fp_print_data option \<Rightarrow> int"
  fpi_img_compare_print_data_to_gallery ::
    "fp_print_data option \<Rightarrow> fp_print_data list \<Rightarrow> int \<Rightarrow> int \<times> nat"
  caller :: "event \<Rightarrow> fp_img_dev \<Rightarrow> fp_img_dev"

section \<open>Constants and small helpers\<close>

definition MIN_ACCEPTABLE_MINUTIAE :: int where
  "MIN_ACCEPTABLE_MINUTIAE = 10"

definition BOZORTH3_DEFAULT_THRESHOLD :: int where
  "BOZORTH3_DEFAULT_THRESHOLD = 40"

definition IMG_ENROLL_STAGES :: int where
  "IMG_ENROLL_STAGES = 5"

text \<open>
  The fields of type \<^verbatim>\<open>int\<close> hold 32-bit values. \<open>int_wrap x\<close> is the \<^verbatim>\<open>int\<close> that results
  when arithmetic gives \<open>x\<close>: \<open>x\<close> itself between \<^verbatim>\<open>INT_MIN\<close> and \<open>INT_MAX\<close>, and its
  two's-complement wrap otherwise.
\<close>

definition INT_MAX :: int where
  "INT_MAX = 2147483647"

definition INT_MIN :: int where
  "INT_MIN = - 2147483648"

definition int_wrap :: "int \<Rightarrow> int" where
  "int_wrap x = (x + 2147483648) mod 4294967296 - 2147483648"

text \<open>The \<^verbatim>\<open>errno.h\<close> codes the file returns negated (their Linux values).\<close>

definition EINVAL :: int where
  "EINVAL = 22"

definition ENOTSUP :: int where
  "ENOTSUP = 95"

text \<open>
  \<^verbatim>\<open>BUG_ON\<close> and \<^verbatim>\<open>BUG\<close> are macros of \<^verbatim>\<open>fp_internal.h\<close>, which is not among the
  sources. The specification calls them fatal assertions that "may abort the process";
  whether a failed one does is the parameter \<open>bug_is_fatal\<close>. \<open>BUG_ON env c k\<close> is the
  assertion on \<open>c\<close> followed by the rest \<open>k\<close> of the function; \<^verbatim>\<open>BUG()\<close> is
  \<open>BUG_ON env True\<close>.
\<close>

definition BUG_ON :: "fpi_env \<Rightarrow> bool \<Rightarrow> fault + 'a \<Rightarrow> fault + 'a" where
  "BUG_ON env c k = (if c \<and> bug_is_fatal env then Inl Bug_abort else k)"

text \<open>
  Modelled from the spec: \<^verbatim>\<open>fpi_print_data_new\<close> (not among the sources) allocates a
  template, "a named, ordered collection of template items", that holds no item yet. The
  type it gives the template is the parameter \<open>new_print_data_type\<close>.
\<close>

definition fpi_print_data_new :: "fpi_env \<Rightarrow> fp_print_data" where
  "fpi_print_data_new env = \<lparr>data_type = new_print_data_type env, prints = []\<rparr>"

text \<open>Both release functions accept a null pointer and then do nothing.\<close>

definition fp_print_data_free :: "fp_print_data option \<Rightarrow> event list" where
  "fp_print_data_free p = (case p of None \<Rightarrow> [] | Some x \<Rightarrow> [Print_data_free x])"

definition fp_img_free :: "fp_img option \<Rightarrow> event list" where
  "fp_img_free p = (case p of None \<Rightarrow> [] | Some x \<Rightarrow> [Img_free x])"

text \<open>An upward callback: the event, and the device as the front end leaves it.\<close>

definition upcall :: "fpi_env \<Rightarrow> event \<Rightarrow> fp_img_dev \<Rightarrow> outcome" where
  "upcall env ev d = (caller env ev d, [ev])"

section \<open>The functions of fpi-dev-img.c\<close>

definition fpi_imgdev_get_action_state :: "fp_img_dev \<Rightarrow> fp_imgdev_enroll_state" where
  "fpi_imgdev_get_action_state d = action_state d"

definition fpi_imgdev_get_action :: "fp_img_dev \<Rightarrow> fp_imgdev_action" where
  "fpi_imgdev_get_action d = action d"

definition fpi_imgdev_get_action_result :: "fp_img_dev \<Rightarrow> int" where
  "fpi_imgdev_get_action_result d = action_result d"

definition fpi_imgdev_set_action_result :: "fp_img_dev \<Rightarrow> int \<Rightarrow> fp_img_dev" where
  "fpi_imgdev_set_action_result d r = d\<lparr>action_result := r\<rparr>"

text \<open>
  \<^verbatim>\<open>img_dev_open\<close>: the zero-filled imaging device with the stage count set; the result
  is the status, the device (none when the driver's open failed) and the trace.
\<close>

definition img_dev_open ::
  "fpi_env \<Rightarrow> fp_img_driver \<Rightarrow> fp_dev \<Rightarrow> nat \<Rightarrow> int \<times> fp_img_dev option \<times> event list" where
  "img_dev_open env drv dev driver_data =
     (let imgdev = \<lparr>parent = dev\<lparr>nr_enroll_stages := IMG_ENROLL_STAGES\<rparr>,
                     action = IMG_ACTION_NONE,
                     action_state = IMG_ACQUIRE_STATE_NONE,
                     action_result = 0,
                     enroll_stage = 0,
                     enroll_data = None,
                     acquire_img = None,
                     acquire_data = None,
                     identify_match_offset = 0\<rparr>
      in case drv_open drv of
           Some f \<Rightarrow>
             (let r = f driver_data
              in if r \<noteq> 0 then (r, None, [Drv_open driver_data])
                 else (0, Some imgdev, [Drv_open driver_data]))
         | None \<Rightarrow>
             (case upcall env (Drvcb_open_complete 0) imgdev of
                (d, tr) \<Rightarrow> (0, Some d, tr)))"

definition dev_change_state :: "fp_img_driver \<Rightarrow> fp_imgdev_state \<Rightarrow> int \<times> event list" where
  "dev_change_state drv st =
     (case drv_change_state drv of
        None \<Rightarrow> (0, [])
      | Some f \<Rightarrow> (f st, [Drv_change_state st]))"

text \<open>
  \<^verbatim>\<open>sanitize_image\<close> writes through the image pointer, so the result is the status
  together with the image as the call leaves it.
\<close>

definition sanitize_image :: "fpi_env \<Rightarrow> fp_img_driver \<Rightarrow> fp_img \<Rightarrow> int \<times> fp_img" where
  "sanitize_image env drv img =
     (let w = (if 0 < img_width drv then Some (img_width drv)
               else if width img \<le> 0 then None
               else Some (width img))
      in case w of
           None \<Rightarrow> (- EINVAL, img)
         | Some w' \<Rightarrow>
             (let img1 = img\<lparr>width := w'\<rparr>;
                  h = (if 0 < img_height drv then Some (img_height drv)
                       else if height img1 \<le> 0 then None
                       else Some (height img1))
              in case h of
                   None \<Rightarrow> (- EINVAL, img1)
                 | Some h' \<Rightarrow>
                     (let img2 = img1\<lparr>height := h'\<rparr>
                      in if \<not> fpi_img_is_sane env img2 then (- EINVAL, img2)
                         else (0, img2))))"

text \<open>
  \<^verbatim>\<open>fpi_imgdev_report_finger_status\<close>. The template \<^verbatim>\<open>print\<close> with its one new item is
  built on entry. The branch that logs "ignoring status report" has its \<^verbatim>\<open>return\<close>
  commented out, so it only logs and control reaches the result report below it.
\<close>

definition fpi_imgdev_report_finger_status ::
  "fpi_env \<Rightarrow> fp_img_driver \<Rightarrow> fp_img_dev \<Rightarrow> bool \<Rightarrow> outcome" where
  "fpi_imgdev_report_finger_status env drv d present =
     (let r = action_result d;
          data = acquire_data d;
          img = acquire_img d;
          item = fpi_print_data_item_new env (sizeof_xyt_struct env);
          print = (fpi_print_data_new env)\<lparr>data_type := PRINT_DATA_NBIS_MINUTIAE,
                                             prints := item # prints (fpi_print_data_new env)\<rparr>
      in if present \<and> action_state d = IMG_ACQUIRE_STATE_AWAIT_FINGER_ON then
           (d\<lparr>action_state := IMG_ACQUIRE_STATE_AWAIT_IMAGE\<rparr>,
            snd (dev_change_state drv IMGDEV_STATE_CAPTURE))
         else
           let d1 = d\<lparr>acquire_img := None, acquire_data := None\<rparr>
           in case action d1 of
                IMG_ACTION_ENROLL \<Rightarrow>
                  (let d2 = (if r = FP_ENROLL_COMPLETE env then d1\<lparr>enroll_data := None\<rparr> else d1);
                       (d3, tr) = upcall env
                          (Drvcb_enroll_stage_completed r
                             (if r = FP_ENROLL_COMPLETE env then Some print else None) img) d2
                   in if action d3 = IMG_ACTION_ENROLL \<and> 0 < r
                         \<and> r \<noteq> FP_ENROLL_COMPLETE env \<and> r \<noteq> FP_ENROLL_FAIL env
                      then (d3\<lparr>action_result := 0,
                               action_state := IMG_ACQUIRE_STATE_AWAIT_FINGER_ON\<rparr>,
                            tr @ snd (dev_change_state drv IMGDEV_STATE_AWAIT_FINGER_ON))
                      else (d3, tr))
              | IMG_ACTION_VERIFY \<Rightarrow>
                  (let (d2, tr) = upcall env (Drvcb_report_verify_result r img) d1
                   in (d2\<lparr>action_result := 0\<rparr>, tr @ fp_print_data_free data))
              | IMG_ACTION_IDENTIFY \<Rightarrow>
                  (let (d2, tr) = upcall env
                          (Drvcb_report_identify_result r (identify_match_offset d1) img) d1
                   in (d2\<lparr>action_result := 0\<rparr>, tr @ fp_print_data_free data))
              | IMG_ACTION_CAPTURE \<Rightarrow>
                  (let (d2, tr) = upcall env (Drvcb_report_capture_result r img) d1
                   in (d2\<lparr>action_result := 0\<rparr>, tr))
              | IMG_ACTION_NONE \<Rightarrow> (d1, []))"

definition verify_process_img :: "fpi_env \<Rightarrow> fp_img_driver \<Rightarrow> fp_img_dev \<Rightarrow> fp_img_dev" where
  "verify_process_img env drv d =
     (let match_score = (if bz3_threshold drv = 0 then BOZORTH3_DEFAULT_THRESHOLD
                         else bz3_threshold drv);
          r = fpi_img_compare_print_data env (verify_data (parent d)) (acquire_data d)
      in d\<lparr>action_result :=
             (if r \<ge> match_score then FP_VERIFY_MATCH env
              else if r \<ge> 0 then FP_VERIFY_NO_MATCH env
              else r)\<rparr>)"

definition identify_process_img :: "fpi_env \<Rightarrow> fp_img_driver \<Rightarrow> fp_img_dev \<Rightarrow> fp_img_dev" where
  "identify_process_img env drv d =
     (let match_score = (if bz3_threshold drv = 0 then BOZORTH3_DEFAULT_THRESHOLD
                         else bz3_threshold drv);
          (r, match_offset) = fpi_img_compare_print_data_to_gallery env (acquire_data d)
                                (identify_gallery (parent d)) match_score
      in d\<lparr>action_result := r, identify_match_offset := match_offset\<rparr>)"

definition fpi_imgdev_abort_scan :: "fp_img_driver \<Rightarrow> fp_img_dev \<Rightarrow> int \<Rightarrow> outcome" where
  "fpi_imgdev_abort_scan drv d result =
     (d\<lparr>action_result := result, action_state := IMG_ACQUIRE_STATE_AWAIT_FINGER_OFF\<rparr>,
      snd (dev_change_state drv IMGDEV_STATE_AWAIT_FINGER_OFF))"

text \<open>
  \<^verbatim>\<open>fpi_imgdev_image_captured\<close>, in three parts. \<open>next_state\<close> is the code at the label
  \<^verbatim>\<open>next_state\<close>, given the trace so far. \<open>image_captured_decide\<close> is the function from
  \<^verbatim>\<open>imgdev->acquire_data = print\<close> on: the switch on the action, then the label.

  In the enroll case \<^verbatim>\<open>print\<close> and \<^verbatim>\<open>imgdev->acquire_data\<close> are the same object, so what is
  freed is the wrapper after its item was taken out. \<^verbatim>\<open>g_slist_remove\<close> drops the first
  node that holds the item. \<^verbatim>\<open>imgdev->enroll_stage++\<close> is an increment of an \<^verbatim>\<open>int\<close>.
\<close>

definition next_state :: "fp_img_driver \<Rightarrow> fp_img_dev \<Rightarrow> event list \<Rightarrow> outcome" where
  "next_state drv d tr =
     (d\<lparr>action_state := IMG_ACQUIRE_STATE_AWAIT_FINGER_OFF\<rparr>,
      tr @ snd (dev_change_state drv IMGDEV_STATE_AWAIT_FINGER_OFF))"

definition image_captured_decide ::
  "fpi_env \<Rightarrow> fp_img_driver \<Rightarrow> fp_img_dev \<Rightarrow> fp_print_data option \<Rightarrow> fault + outcome" where
  "image_captured_decide env drv d print =
     (let d1 = d\<lparr>acquire_data := print\<rparr>
      in case action d1 of
           IMG_ACTION_ENROLL \<Rightarrow>
             (let ed = (case enroll_data d1 of None \<Rightarrow> fpi_print_data_new env | Some e \<Rightarrow> e)
              in case print of
                   None \<Rightarrow> Inl Null_dereference
                 | Some p \<Rightarrow>
                     BUG_ON env (length (prints p) \<noteq> 1)
                       (case prints p of
                          [] \<Rightarrow> Inl Null_dereference
                        | it # _ \<Rightarrow>
                            (let ed' = ed\<lparr>prints := it # prints ed\<rparr>;
                                 p' = p\<lparr>prints := remove1 it (prints p)\<rparr>;
                                 stage = int_wrap (enroll_stage d1 + 1)
                             in Inr (next_state drv
                                  (d1\<lparr>enroll_data := Some ed',
                                       acquire_data := None,
                                       enroll_stage := stage,
                                       action_result :=
                                         (if stage = nr_enroll_stages (parent d1)
                                          then FP_ENROLL_COMPLETE env
                                          else FP_ENROLL_PASS env)\<rparr>)
                                  (fp_print_data_free (Some p'))))))
         | IMG_ACTION_VERIFY \<Rightarrow> Inr (next_state drv (verify_process_img env drv d1) [])
         | IMG_ACTION_IDENTIFY \<Rightarrow> Inr (next_state drv (identify_process_img env drv d1) [])
         | IMG_ACTION_CAPTURE \<Rightarrow>
             Inr (next_state drv (d1\<lparr>action_result := FP_CAPTURE_COMPLETE env\<rparr>) [])
         | IMG_ACTION_NONE \<Rightarrow> BUG_ON env True (Inr (next_state drv d1 [])))"

definition fpi_imgdev_image_captured ::
  "fpi_env \<Rightarrow> fp_img_driver \<Rightarrow> fp_img_dev \<Rightarrow> fp_img \<Rightarrow> fault + outcome" where
  "fpi_imgdev_image_captured env drv d img =
     (if action_state d \<noteq> IMG_ACQUIRE_STATE_AWAIT_IMAGE then Inr (d, [])
      else if action_result d \<noteq> 0 then Inr (d, [])
      else
        case sanitize_image env drv img of
          (r, img1) \<Rightarrow>
            if r < 0 then Inr (next_state drv (d\<lparr>action_result := r\<rparr>) (fp_img_free (Some img1)))
            else
              let img2 = fp_img_standardize env img1;
                  d1 = d\<lparr>acquire_img := Some img2\<rparr>
              in if action d1 \<noteq> IMG_ACTION_CAPTURE then
                   (case fpi_img_to_print_data env img2 of
                      (r2, img3, print) \<Rightarrow>
                        (let d2 = d1\<lparr>acquire_img := Some img3\<rparr>
                         in if r2 < 0 then
                              Inr (next_state drv (d2\<lparr>action_result := FP_ENROLL_RETRY env\<rparr>) [])
                            else
                              case minutiae img3 of
                                None \<Rightarrow> Inl Null_dereference
                              | Some num \<Rightarrow>
                                  if num < MIN_ACCEPTABLE_MINUTIAE then
                                    Inr (next_state drv
                                      (d2\<lparr>action_result := FP_ENROLL_RETRY env\<rparr>)
                                      (fp_print_data_free print))
                                  else image_captured_decide env drv d2 print))
                 else image_captured_decide env drv d1 None)"

definition fpi_imgdev_session_error :: "fpi_env \<Rightarrow> fp_img_dev \<Rightarrow> int \<Rightarrow> fault + outcome" where
  "fpi_imgdev_session_error env d err =
     BUG_ON env (err = 0)
       (case action d of
          IMG_ACTION_ENROLL \<Rightarrow> Inr (upcall env (Drvcb_enroll_stage_completed err None None) d)
        | IMG_ACTION_VERIFY \<Rightarrow> Inr (upcall env (Drvcb_report_verify_result err None) d)
        | IMG_ACTION_IDENTIFY \<Rightarrow> Inr (upcall env (Drvcb_report_identify_result err 0 None) d)
        | IMG_ACTION_CAPTURE \<Rightarrow> Inr (upcall env (Drvcb_report_capture_result err None) d)
        | IMG_ACTION_NONE \<Rightarrow> Inr (d, []))"

definition fpi_imgdev_activate_complete ::
  "fpi_env \<Rightarrow> fp_img_driver \<Rightarrow> fp_img_dev \<Rightarrow> int \<Rightarrow> outcome" where
  "fpi_imgdev_activate_complete env drv d status =
     (case (case action d of
              IMG_ACTION_ENROLL \<Rightarrow> Some (upcall env (Drvcb_enroll_started status) d)
            | IMG_ACTION_VERIFY \<Rightarrow> Some (upcall env (Drvcb_verify_started status) d)
            | IMG_ACTION_IDENTIFY \<Rightarrow> Some (upcall env (Drvcb_identify_started status) d)
            | IMG_ACTION_CAPTURE \<Rightarrow> Some (upcall env (Drvcb_capture_started status) d)
            | IMG_ACTION_NONE \<Rightarrow> None) of
        None \<Rightarrow> (d, [])
      | Some (d1, tr) \<Rightarrow>
          if status = 0 then
            (d1\<lparr>action_state := IMG_ACQUIRE_STATE_AWAIT_FINGER_ON\<rparr>,
             tr @ snd (dev_change_state drv IMGDEV_STATE_AWAIT_FINGER_ON))
          else (d1, tr))"

definition fpi_imgdev_deactivate_complete :: "fpi_env \<Rightarrow> fp_img_dev \<Rightarrow> outcome" where
  "fpi_imgdev_deactivate_complete env d =
     (let (d1, tr) =
            (case action d of
               IMG_ACTION_ENROLL \<Rightarrow> upcall env Drvcb_enroll_stopped d
             | IMG_ACTION_VERIFY \<Rightarrow> upcall env Drvcb_verify_stopped d
             | IMG_ACTION_IDENTIFY \<Rightarrow> upcall env Drvcb_identify_stopped d
             | IMG_ACTION_CAPTURE \<Rightarrow> upcall env Drvcb_capture_stopped d
             | IMG_ACTION_NONE \<Rightarrow> (d, []))
      in (d1\<lparr>action := IMG_ACTION_NONE, action_state := IMG_ACQUIRE_STATE_NONE\<rparr>, tr))"

definition fpi_imgdev_get_img_width :: "fp_img_driver \<Rightarrow> int" where
  "fpi_imgdev_get_img_width drv = (if img_width drv = - 1 then 0 else img_width drv)"

definition fpi_imgdev_get_img_height :: "fp_img_driver \<Rightarrow> int" where
  "fpi_imgdev_get_img_height drv = (if img_height drv = - 1 then 0 else img_height drv)"

definition dev_activate :: "fp_img_driver \<Rightarrow> fp_imgdev_state \<Rightarrow> int \<times> event list" where
  "dev_activate drv st =
     (case drv_activate drv of
        None \<Rightarrow> (0, [])
      | Some f \<Rightarrow> (f st, [Drv_activate st]))"

definition dev_deactivate :: "fp_img_driver \<Rightarrow> event list" where
  "dev_deactivate drv = (if \<not> drv_deactivate drv then [] else [Drv_deactivate])"

text \<open>The start functions return the status beside the device and the trace.\<close>

definition generic_acquire_start ::
  "fp_img_driver \<Rightarrow> fp_img_dev \<Rightarrow> fp_imgdev_action \<Rightarrow> int \<times> outcome" where
  "generic_acquire_start drv d a =
     (let d1 = d\<lparr>action := a,
                 action_state := IMG_ACQUIRE_STATE_ACTIVATING,
                 enroll_stage := 0\<rparr>;
          (r, tr) = dev_activate drv IMGDEV_STATE_AWAIT_FINGER_ON
      in (r, d1, tr))"

definition generic_acquire_stop :: "fp_img_driver \<Rightarrow> fp_img_dev \<Rightarrow> outcome" where
  "generic_acquire_stop drv d =
     (d\<lparr>action_state := IMG_ACQUIRE_STATE_DEACTIVATING,
        acquire_data := None,
        enroll_data := None,
        acquire_img := None,
        action_result := 0\<rparr>,
      dev_deactivate drv
        @ fp_print_data_free (acquire_data d)
        @ fp_print_data_free (enroll_data d)
        @ fp_img_free (acquire_img d))"

definition img_dev_enroll_start :: "fp_img_driver \<Rightarrow> fp_img_dev \<Rightarrow> int \<times> outcome" where
  "img_dev_enroll_start drv d = generic_acquire_start drv d IMG_ACTION_ENROLL"

definition img_dev_verify_start :: "fp_img_driver \<Rightarrow> fp_img_dev \<Rightarrow> int \<times> outcome" where
  "img_dev_verify_start drv d = generic_acquire_start drv d IMG_ACTION_VERIFY"

definition img_dev_identify_start :: "fp_img_driver \<Rightarrow> fp_img_dev \<Rightarrow> int \<times> outcome" where
  "img_dev_identify_start drv d = generic_acquire_start drv d IMG_ACTION_IDENTIFY"

definition img_dev_capture_start :: "fp_img_driver \<Rightarrow> fp_img_dev \<Rightarrow> int \<times> outcome" where
  "img_dev_capture_start drv d =
     (if unconditional_capture (parent d) then (- ENOTSUP, d, [])
      else generic_acquire_start drv d IMG_ACTION_CAPTURE)"

definition img_dev_enroll_stop ::
  "fpi_env \<Rightarrow> fp_img_driver \<Rightarrow> fp_img_dev \<Rightarrow> fault + int \<times> outcome" where
  "img_dev_enroll_stop env drv d =
     BUG_ON env (action d \<noteq> IMG_ACTION_ENROLL) (Inr (0, generic_acquire_stop drv d))"

definition img_dev_verify_stop ::
  "fpi_env \<Rightarrow> fp_img_driver \<Rightarrow> fp_img_dev \<Rightarrow> fault + int \<times> outcome" where
  "img_dev_verify_stop env drv d =
     BUG_ON env (action d \<noteq> IMG_ACTION_VERIFY) (Inr (0, generic_acquire_stop drv d))"

definition img_dev_identify_stop ::
  "fpi_env \<Rightarrow> fp_img_driver \<Rightarrow> fp_img_dev \<Rightarrow> fault + int \<times> outcome" where
  "img_dev_identify_stop env drv d =
     BUG_ON env (action d \<noteq> IMG_ACTION_IDENTIFY)
       (case generic_acquire_stop drv d of
          (d1, tr) \<Rightarrow> Inr (0, d1\<lparr>identify_match_offset := 0\<rparr>, tr))"

definition img_dev_capture_stop ::
  "fpi_env \<Rightarrow> fp_img_driver \<Rightarrow> fp_img_dev \<Rightarrow> fault + int \<times> outcome" where
  "img_dev_capture_stop env drv d =
     BUG_ON env (action d \<noteq> IMG_ACTION_CAPTURE) (Inr (0, generic_acquire_stop drv d))"

text \<open>
  \<^verbatim>\<open>fpi_imgdev_open_complete\<close>, \<^verbatim>\<open>img_dev_close\<close> and \<^verbatim>\<open>fpi_imgdev_close_complete\<close>; the
  last frees the imaging device, so only its trace remains.
\<close>

definition fpi_imgdev_open_complete :: "fpi_env \<Rightarrow> fp_img_dev \<Rightarrow> int \<Rightarrow> outcome" where
  "fpi_imgdev_open_complete env d status = upcall env (Drvcb_open_complete status) d"

definition img_dev_close :: "fpi_env \<Rightarrow> fp_img_driver \<Rightarrow> fp_img_dev \<Rightarrow> outcome" where
  "img_dev_close env drv d =
     (if drv_close drv then (d, [Drv_close]) else upcall env Drvcb_close_complete d)"

definition fpi_imgdev_close_complete :: "fpi_env \<Rightarrow> fp_img_dev \<Rightarrow> event list" where
  "fpi_imgdev_close_complete env d = snd (upcall env Drvcb_close_complete d)"

section \<open>Sequences of calls\<close>

text \<open>
  The calls that reach the core: the front end starts and stops an action through the
  table that \<^verbatim>\<open>fpi_img_driver_setup\<close> fills in, and the driver reports activation,
  finger status, images, aborted scans, session errors and deactivation, and may set
  the action result directly.
\<close>

datatype input =
    Start fp_imgdev_action
  | Activate_complete int
  | Finger_status bool
  | Image_captured fp_img
  | Abort_scan int
  | Set_action_result int
  | Session_error int
  | Stop fp_imgdev_action
  | Deactivate_complete

definition start_action ::
  "fp_img_driver \<Rightarrow> fp_img_dev \<Rightarrow> fp_imgdev_action \<Rightarrow> (int \<times> outcome) option" where
  "start_action drv d a =
     (case a of
        IMG_ACTION_ENROLL \<Rightarrow> Some (img_dev_enroll_start drv d)
      | IMG_ACTION_VERIFY \<Rightarrow> Some (img_dev_verify_start drv d)
      | IMG_ACTION_IDENTIFY \<Rightarrow> Some (img_dev_identify_start drv d)
      | IMG_ACTION_CAPTURE \<Rightarrow> Some (img_dev_capture_start drv d)
      | IMG_ACTION_NONE \<Rightarrow> None)"

definition stop_action ::
  "fpi_env \<Rightarrow> fp_img_driver \<Rightarrow> fp_img_dev \<Rightarrow> fp_imgdev_action \<Rightarrow> (int \<times> outcome) option" where
  "stop_action env drv d a =
     (case (case a of
              IMG_ACTION_ENROLL \<Rightarrow> img_dev_enroll_stop env drv d
            | IMG_ACTION_VERIFY \<Rightarrow> img_dev_verify_stop env drv d
            | IMG_ACTION_IDENTIFY \<Rightarrow> img_dev_identify_stop env drv d
            | IMG_ACTION_CAPTURE \<Rightarrow> img_dev_capture_stop env drv d
            | IMG_ACTION_NONE \<Rightarrow> Inl Bug_abort) of
        Inl f \<Rightarrow> None
      | Inr x \<Rightarrow> Some x)"

text \<open>
  One call on the device, in whatever state the device is: the functions test nothing
  but what their bodies test. The result is \<open>None\<close> when the call aborts and when the
  input names no operation (\<open>Start\<close> or \<open>Stop\<close> of no action).
\<close>

fun step :: "fpi_env \<Rightarrow> fp_img_driver \<Rightarrow> fp_img_dev \<Rightarrow> input \<Rightarrow> outcome option" where
  "step env drv d (Start a) = map_option snd (start_action drv d a)"
| "step env drv d (Activate_complete status) =
     Some (fpi_imgdev_activate_complete env drv d status)"
| "step env drv d (Finger_status present) =
     Some (fpi_imgdev_report_finger_status env drv d present)"
| "step env drv d (Image_captured img) =
     (case fpi_imgdev_image_captured env drv d img of Inl f \<Rightarrow> None | Inr x \<Rightarrow> Some x)"
| "step env drv d (Abort_scan result) = Some (fpi_imgdev_abort_scan drv d result)"
| "step env drv d (Set_action_result result) =
     Some (fpi_imgdev_set_action_result d result, [])"
| "step env drv d (Session_error err) =
     (case fpi_imgdev_session_error env d err of Inl f \<Rightarrow> None | Inr x \<Rightarrow> Some x)"
| "step env drv d (Stop a) = map_option snd (stop_action env drv d a)"
| "step env drv d Deactivate_complete = Some (fpi_imgdev_deactivate_complete env d)"

fun run :: "fpi_env \<Rightarrow> fp_img_driver \<Rightarrow> input list \<Rightarrow> outcome \<Rightarrow> outcome option" where
  "run env drv [] s = Some s"
| "run env drv (i # inputs) (d, tr) =
     (case step env drv d i of
        None \<Rightarrow> None
      | Some (d', tr') \<Rightarrow> run env drv inputs (d', tr @ tr'))"

text \<open>
  The driver's discipline, which the functions do not enforce. An input is in turn for a
  device when it is anything but an activation-complete report while the device is not
  activating, or an aborted scan or a directly set result while no scan is armed or
  running (the device awaits neither the finger nor an image). A sequence of inputs is in
  turn when each input is in turn for the device the earlier calls have left.
\<close>

fun in_turn :: "fp_img_dev \<Rightarrow> input \<Rightarrow> bool" where
  "in_turn d (Activate_complete status) =
     (action_state d = IMG_ACQUIRE_STATE_ACTIVATING)"
| "in_turn d (Abort_scan result) =
     (action_state d = IMG_ACQUIRE_STATE_AWAIT_FINGER_ON
      \<or> action_state d = IMG_ACQUIRE_STATE_AWAIT_IMAGE)"
| "in_turn d (Set_action_result result) =
     (action_state d = IMG_ACQUIRE_STATE_AWAIT_FINGER_ON
      \<or> action_state d = IMG_ACQUIRE_STATE_AWAIT_IMAGE)"
| "in_turn d i = True"

fun driver_in_turn :: "fpi_env \<Rightarrow> fp_img_driver \<Rightarrow> input list \<Rightarrow> fp_img_dev \<Rightarrow> bool" where
  "driver_in_turn env drv [] d = True"
| "driver_in_turn env drv (i # inputs) d =
     (in_turn d i
      \<and> (case step env drv d i of
            None \<Rightarrow> True
          | Some (d', tr) \<Rightarrow> driver_in_turn env drv inputs d'))"

text \<open>
  A front end that, inside a callback, either leaves the device alone or cancels the
  action: a cancel stops the action (possibly through to the end of deactivation), so it
  resets the result and leaves the stage count and the parent device as they were.
\<close>

definition caller_returns_or_cancels :: "fpi_env \<Rightarrow> bool" where
  "caller_returns_or_cancels env \<longleftrightarrow>
     (\<forall>ev d. caller env ev d = d
        \<or> (enroll_stage (caller env ev d) = enroll_stage d
           \<and> parent (caller env ev d) = parent d
           \<and> action_result (caller env ev d) = 0
           \<and> (action_state (caller env ev d) = IMG_ACQUIRE_STATE_DEACTIVATING
              \<or> action_state (caller env ev d) = IMG_ACQUIRE_STATE_NONE)))"

text \<open>
  The contract of \<^verbatim>\<open>fpi_img_to_print_data\<close>: when it does not fail, the image has its
  minutiae and \<^verbatim>\<open>ret\<close> holds a template of one item.
\<close>

definition extraction_contract :: "fpi_env \<Rightarrow> bool" where
  "extraction_contract env \<longleftrightarrow>
     (\<forall>img. case fpi_img_to_print_data env img of
              (r, img', print) \<Rightarrow>
                r < 0 \<or> (minutiae img' \<noteq> None
                         \<and> (case print of None \<Rightarrow> False | Some p \<Rightarrow> length (prints p) = 1)))"

text \<open>The upward callbacks that report the outcome of a finger cycle.\<close>

fun is_result_callback :: "event \<Rightarrow> bool" where
  "is_result_callback (Drvcb_enroll_stage_completed r data img) = True"
| "is_result_callback (Drvcb_report_verify_result r img) = True"
| "is_result_callback (Drvcb_report_identify_result r off img) = True"
| "is_result_callback (Drvcb_report_capture_result r img) = True"
| "is_result_callback ev = False"

text \<open>
  The invariant behind the stage bound: the stage count is a positive \<^verbatim>\<open>int\<close>; the stages
  done are not negative; and they are fewer than the stage count, or equal to it while
  the device is neither activating nor awaiting a finger or an image and holds no result
  that would re-arm the cycle.
\<close>

definition stage_invariant :: "fpi_env \<Rightarrow> fp_img_dev \<Rightarrow> bool" where
  "stage_invariant env d \<longleftrightarrow>
     0 < nr_enroll_stages (parent d)
     \<and> nr_enroll_stages (parent d) \<le> INT_MAX
     \<and> 0 \<le> enroll_stage d
     \<and> (enroll_stage d < nr_enroll_stages (parent d)
        \<or> (enroll_stage d = nr_enroll_stages (parent d)
           \<and> action_state d \<noteq> IMG_ACQUIRE_STATE_ACTIVATING
           \<and> action_state d \<noteq> IMG_ACQUIRE_STATE_AWAIT_FINGER_ON
           \<and> action_state d \<noteq> IMG_ACQUIRE_STATE_AWAIT_IMAGE
           \<and> \<not> (0 < action_result d \<and> action_result d \<noteq> FP_ENROLL_COMPLETE env
                 \<and> action_result d \<noteq> FP_ENROLL_FAIL env)))"

section \<open>A sample environment\<close>

text \<open>
  Concrete collaborators on which the model can be run: the result codes are those of
  libfprint's public header; an image of 4 by 3 pixels has as many minutiae as it has
  non-zero pixels, and extraction fails on an image with none; two templates score 50
  when their first items are equal and 7 otherwise, and a missing template is a
  comparison error; callbacks return without touching the device.
\<close>

definition sample_extract :: "fp_img \<Rightarrow> int \<times> fp_img \<times> fp_print_data option" where
  "sample_extract img =
     (let n = length (filter (\<lambda>p. 0 < p) (pixels img))
      in if n = 0 then (- 2, img, None)
         else (0, img\<lparr>minutiae := Some (int n)\<rparr>,
               Some \<lparr>data_type = PRINT_DATA_NBIS_MINUTIAE,
                     prints = [Print_item n (pixels img)]\<rparr>))"

definition sample_compare :: "fp_print_data option \<Rightarrow> fp_print_data option \<Rightarrow> int" where
  "sample_compare a b =
     (case (a, b) of
        (Some x, Some y) \<Rightarrow>
          (case (prints x, prints y) of
             (i # _, j # _) \<Rightarrow> if i = j then 50 else 7
           | _ \<Rightarrow> - 1)
      | _ \<Rightarrow> - 1)"

definition sample_env :: fpi_env where
  "sample_env =
     \<lparr>FP_ENROLL_COMPLETE = 1,
      FP_ENROLL_FAIL = 2,
      FP_ENROLL_PASS = 3,
      FP_ENROLL_RETRY = 100,
      FP_VERIFY_NO_MATCH = 0,
      FP_VERIFY_MATCH = 1,
      FP_CAPTURE_COMPLETE = 0,
      bug_is_fatal = True,
      sizeof_xyt_struct = 4,
      new_print_data_type = PRINT_DATA_NBIS_MINUTIAE,
      fpi_print_data_item_new = (\<lambda>n. Print_item n (replicate n 0)),
      fpi_img_is_sane = (\<lambda>img. 0 < width img \<and> 0 < height img
                          \<and> nat (width img * height img) \<le> length (pixels img)),
      fp_img_standardize = (\<lambda>img. img),
      fpi_img_to_print_data = sample_extract,
      fpi_img_compare_print_data = sample_compare,
      fpi_img_compare_print_data_to_gallery =
        (\<lambda>p g thr. case filter (\<lambda>i. thr \<le> sample_compare (Some (g ! i)) p) [0..<length g] of
                      [] \<Rightarrow> (0, 0)
                    | i # _ \<Rightarrow> (1, i)),
      caller = (\<lambda>ev d. d)\<rparr>"

definition sample_driver :: fp_img_driver where
  "sample_driver =
     \<lparr>img_width = 4,
      img_height = 0,
      bz3_threshold = 0,
      drv_open = None,
      drv_close = False,
      drv_change_state = Some (\<lambda>st. 0),
      drv_activate = Some (\<lambda>st. 0),
      drv_deactivate = True\<rparr>"

text \<open>The image whose first \<open>n\<close> of 12 pixels are set.\<close>

definition sample_img :: "nat \<Rightarrow> fp_img" where
  "sample_img n =
     \<lparr>width = 4, height = 3, pixels = replicate n 1 @ replicate (12 - n) 0, minutiae = None\<rparr>"

definition sample_parent :: fp_dev where
  "sample_parent =
     \<lparr>nr_enroll_stages = 0,
      unconditional_capture = False,
      verify_data = None,
      identify_gallery = []\<rparr>"

text \<open>The device as \<^verbatim>\<open>img_dev_open\<close> leaves it for the sample driver.\<close>

definition sample_dev :: fp_img_dev where
  "sample_dev =
     \<lparr>parent = sample_parent\<lparr>nr_enroll_stages := 5\<rparr>,
      action = IMG_ACTION_NONE,
      action_state = IMG_ACQUIRE_STATE_NONE,
      action_result = 0,
      enroll_stage = 0,
      enroll_data = None,
      acquire_img = None,
      acquire_data = None,
      identify_match_offset = 0\<rparr>"

text \<open>
  The template extracted from \<open>sample_img n\<close>; a device awaiting an image for an action,
  with the template of the full image as the stored reference; one finger cycle; and an
  enrollment of five accepted cycles.
\<close>

definition sample_template :: "nat \<Rightarrow> fp_print_data" where
  "sample_template n =
     \<lparr>data_type = PRINT_DATA_NBIS_MINUTIAE, prints = [Print_item n (pixels (sample_img n))]\<rparr>"

definition sample_awaiting_image :: "fp_imgdev_action \<Rightarrow> fp_img_dev" where
  "sample_awaiting_image a =
     sample_dev\<lparr>parent := sample_parent\<lparr>nr_enroll_stages := 5,
                                          verify_data := Some (sample_template 12)\<rparr>,
                action := a,
                action_state := IMG_ACQUIRE_STATE_AWAIT_IMAGE\<rparr>"

definition sample_cycle :: "nat \<Rightarrow> input list" where
  "sample_cycle n = [Finger_status True, Image_captured (sample_img n), Finger_status False]"

definition sample_enrollment :: "input list" where
  "sample_enrollment =
     Start IMG_ACTION_ENROLL # Activate_complete 0
       # sample_cycle 10 @ sample_cycle 11 @ sample_cycle 12 @ sample_cycle 10 @ sample_cycle 11"

section \<open>Unfolding the model\<close>

lemmas model_defs =
  fpi_imgdev_report_finger_status_def fpi_imgdev_image_captured_def image_captured_decide_def
  next_state_def sanitize_image_def dev_change_state_def dev_activate_def dev_deactivate_def
  generic_acquire_start_def generic_acquire_stop_def img_dev_enroll_start_def
  img_dev_verify_start_def img_dev_identify_start_def img_dev_capture_start_def
  img_dev_enroll_stop_def img_dev_verify_stop_def img_dev_identify_stop_def
  img_dev_capture_stop_def start_action_def stop_action_def
  fpi_imgdev_activate_complete_def fpi_imgdev_deactivate_complete_def
  fpi_imgdev_session_error_def fpi_imgdev_abort_scan_def verify_process_img_def
  identify_process_img_def upcall_def BUG_ON_def fp_print_data_free_def fp_img_free_def
  fpi_print_data_new_def MIN_ACCEPTABLE_MINUTIAE_def BOZORTH3_DEFAULT_THRESHOLD_def
  EINVAL_def ENOTSUP_def int_wrap_def fpi_imgdev_set_action_result_def

lemmas sample_defs =
  sample_env_def sample_driver_def sample_dev_def sample_parent_def sample_img_def
  sample_extract_def sample_compare_def sample_cycle_def sample_enrollment_def
  sample_template_def sample_awaiting_image_def

lemma sample_dev_opened:
  "img_dev_open sample_env sample_driver sample_parent 0
     = (0, Some sample_dev, [Drvcb_open_complete 0])"
  by (simp add: img_dev_open_def upcall_def IMG_ENROLL_STAGES_def sample_env_def
      sample_driver_def sample_dev_def)

lemma sample_env_extraction_contract: "extraction_contract sample_env"
  by (simp add: extraction_contract_def sample_env_def sample_extract_def Let_def)

lemma sample_env_caller: "caller_returns_or_cancels sample_env"
  by (simp add: caller_returns_or_cancels_def sample_env_def)

section \<open>The sanitizer\<close>

lemma sanitize_image_status:
  "fst (sanitize_image env drv img) =
     (if (\<not> 0 < img_width drv \<and> width img \<le> 0)
         \<or> (\<not> 0 < img_height drv \<and> height img \<le> 0)
         \<or> \<not> fpi_img_is_sane env
               (img\<lparr>width := (if 0 < img_width drv then img_width drv else width img),
                    height := (if 0 < img_height drv then img_height drv else height img)\<rparr>)
      then - EINVAL else 0)"
  by (simp add: sanitize_image_def Let_def)

lemma sanitize_image_success:
  "0 \<le> fst (sanitize_image env drv img) \<Longrightarrow>
   snd (sanitize_image env drv img) =
     img\<lparr>width := (if 0 < img_width drv then img_width drv else width img),
         height := (if 0 < img_height drv then img_height drv else height img)\<rparr>"
  by (simp add: sanitize_image_def Let_def EINVAL_def split: if_splits)

lemma sanitize_image_width:
  "0 < img_width drv \<Longrightarrow> width (snd (sanitize_image env drv img)) = img_width drv"
  by (simp add: sanitize_image_def Let_def)

lemma sanitize_image_height:
  "0 < img_height drv \<Longrightarrow> 0 < img_width drv \<or> 0 < width img \<Longrightarrow>
   height (snd (sanitize_image env drv img)) = img_height drv"
  by (auto simp add: sanitize_image_def Let_def)

lemma image_captured_sanitize_failure:
  assumes "action_state d = IMG_ACQUIRE_STATE_AWAIT_IMAGE" and "action_result d = 0"
    and "fst (sanitize_image env drv img) < 0"
  shows "fpi_imgdev_image_captured env drv d img =
           Inr (d\<lparr>action_result := - EINVAL,
                   action_state := IMG_ACQUIRE_STATE_AWAIT_FINGER_OFF\<rparr>,
                Img_free (snd (sanitize_image env drv img))
                  # snd (dev_change_state drv IMGDEV_STATE_AWAIT_FINGER_OFF))"
proof -
  obtain r img1 where s: "sanitize_image env drv img = (r, img1)"
    by (cases "sanitize_image env drv img")
  from assms(3) s have "r < 0" by simp
  moreover from sanitize_image_status [of env drv img] s this have "r = - EINVAL"
    by (simp split: if_splits)
  ultimately show ?thesis using assms(1,2) s
    by (simp add: fpi_imgdev_image_captured_def next_state_def fp_img_free_def)
qed

text \<open>
  C8 (as amended). For an image processed while the device awaits one (and no result is
  recorded yet): a positive driver width is written onto the image, and so is a positive
  driver height unless sanitation has already failed on the width; sanitation fails, with \<^verbatim>\<open>-EINVAL\<close>, exactly
  when the driver fixes no width and the image's is not positive, or the driver fixes no
  height and the image's is not positive, or the sanity predicate rejects the image with
  the fixed dimensions written in, and succeeds with status 0 otherwise; \<^verbatim>\<open>-EINVAL\<close> is
  negative; and on a failure the call records \<^verbatim>\<open>-EINVAL\<close> as the action result, frees
  the image as sanitation left it, and moves on to await the finger's removal.
\<close>

theorem sanitation_gate:
  assumes "action_state d = IMG_ACQUIRE_STATE_AWAIT_IMAGE" and "action_result d = 0"
  shows "(0 < img_width drv \<longrightarrow> width (snd (sanitize_image env drv img)) = img_width drv)
       \<and> (0 < img_height drv \<and> (0 < img_width drv \<or> 0 < width img) \<longrightarrow>
            height (snd (sanitize_image env drv img)) = img_height drv)
       \<and> fst (sanitize_image env drv img) =
           (if (\<not> 0 < img_width drv \<and> width img \<le> 0)
               \<or> (\<not> 0 < img_height drv \<and> height img \<le> 0)
               \<or> \<not> fpi_img_is_sane env
                     (img\<lparr>width := (if 0 < img_width drv then img_width drv else width img),
                          height := (if 0 < img_height drv then img_height drv
                                     else height img)\<rparr>)
            then - EINVAL else 0)
       \<and> - EINVAL < 0
       \<and> (fst (sanitize_image env drv img) < 0 \<longrightarrow>
            fpi_imgdev_image_captured env drv d img =
              Inr (d\<lparr>action_result := - EINVAL,
                      action_state := IMG_ACQUIRE_STATE_AWAIT_FINGER_OFF\<rparr>,
                   Img_free (snd (sanitize_image env drv img))
                     # snd (dev_change_state drv IMGDEV_STATE_AWAIT_FINGER_OFF)))"
proof (intro conjI impI)
  show "fst (sanitize_image env drv img) =
           (if (\<not> 0 < img_width drv \<and> width img \<le> 0)
               \<or> (\<not> 0 < img_height drv \<and> height img \<le> 0)
               \<or> \<not> fpi_img_is_sane env
                     (img\<lparr>width := (if 0 < img_width drv then img_width drv else width img),
                          height := (if 0 < img_height drv then img_height drv
                                     else height img)\<rparr>)
            then - EINVAL else 0)"
    by (rule sanitize_image_status)
  show "- EINVAL < 0" by (simp add: EINVAL_def)
qed (simp_all add: sanitize_image_width sanitize_image_height
      image_captured_sanitize_failure [OF assms])

theorem sanitation_gate_witness:
  "action_state (sample_awaiting_image IMG_ACTION_VERIFY) = IMG_ACQUIRE_STATE_AWAIT_IMAGE
   \<and> action_result (sample_awaiting_image IMG_ACTION_VERIFY) = 0
   \<and> sanitize_image sample_env sample_driver ((sample_img 12)\<lparr>width := 7, height := 0\<rparr>)
       = (- 22, (sample_img 12)\<lparr>width := 4, height := 0\<rparr>)
   \<and> fpi_imgdev_image_captured sample_env sample_driver
        (sample_awaiting_image IMG_ACTION_VERIFY) ((sample_img 12)\<lparr>width := 7, height := 0\<rparr>)
       = Inr ((sample_awaiting_image IMG_ACTION_VERIFY)
                \<lparr>action_result := - 22, action_state := IMG_ACQUIRE_STATE_AWAIT_FINGER_OFF\<rparr>,
              [Img_free ((sample_img 12)\<lparr>width := 4, height := 0\<rparr>),
               Drv_change_state IMGDEV_STATE_AWAIT_FINGER_OFF])
   \<and> sanitize_image sample_env sample_driver ((sample_img 12)\<lparr>width := 7, pixels := [1, 1]\<rparr>)
       = (- 22, (sample_img 12)\<lparr>width := 4, pixels := [1, 1]\<rparr>)
   \<and> sanitize_image sample_env sample_driver ((sample_img 12)\<lparr>width := 7\<rparr>)
       = (0, sample_img 12)"
  using sanitation_gate [of "sample_awaiting_image IMG_ACTION_VERIFY" sample_driver sample_env
      "(sample_img 12)\<lparr>width := 7, height := 0\<rparr>"]
  by (simp add: model_defs sample_defs Let_def)

text \<open>
  C8 as stated fails for the height: when the driver fixes no width and the image's is
  not positive, sanitation returns before it reaches the height, so a positive driver
  height (here 3) is not written onto the image (whose height stays 9); the image is
  freed as it is.
\<close>

theorem sanitation_height_not_written_counterexample:
  "0 < img_height (sample_driver\<lparr>img_width := 0, img_height := 3\<rparr>)
   \<and> sanitize_image sample_env (sample_driver\<lparr>img_width := 0, img_height := 3\<rparr>)
        ((sample_img 12)\<lparr>width := 0, height := 9\<rparr>)
       = (- 22, (sample_img 12)\<lparr>width := 0, height := 9\<rparr>)
   \<and> height (snd (sanitize_image sample_env (sample_driver\<lparr>img_width := 0, img_height := 3\<rparr>)
        ((sample_img 12)\<lparr>width := 0, height := 9\<rparr>))) = 9
   \<and> fpi_imgdev_image_captured sample_env (sample_driver\<lparr>img_width := 0, img_height := 3\<rparr>)
        (sample_awaiting_image IMG_ACTION_VERIFY) ((sample_img 12)\<lparr>width := 0, height := 9\<rparr>)
       = Inr ((sample_awaiting_image IMG_ACTION_VERIFY)
                \<lparr>action_result := - 22, action_state := IMG_ACQUIRE_STATE_AWAIT_FINGER_OFF\<rparr>,
              [Img_free ((sample_img 12)\<lparr>width := 0, height := 9\<rparr>),
               Drv_change_state IMGDEV_STATE_AWAIT_FINGER_OFF])"
  by (simp add: model_defs sample_defs Let_def)

section \<open>Ignored and refused calls\<close>

lemma image_captured_early_return:
  assumes "action_state d \<noteq> IMG_ACQUIRE_STATE_AWAIT_IMAGE \<or> action_result d \<noteq> 0"
  shows "fpi_imgdev_image_captured env drv d img = Inr (d, [])"
  using assms by (auto simp add: fpi_imgdev_image_captured_def)

text \<open>
  C6. An image-captured event is ignored when the device is not awaiting an image, and
  the image is discarded when a result is already recorded for the cycle: in both cases
  the call returns the device record as it was and does nothing else (the image is not
  stored, nothing is released, no callback and no driver request is made).
\<close>

theorem image_captured_ignored_or_discarded:
  assumes "action_state d \<noteq> IMG_ACQUIRE_STATE_AWAIT_IMAGE \<or> action_result d \<noteq> 0"
  shows "fpi_imgdev_image_captured env drv d img = Inr (d, [])"
  using assms by (rule image_captured_early_return)

theorem image_captured_ignored_or_discarded_witness:
  "fpi_imgdev_image_captured sample_env sample_driver sample_dev (sample_img 12)
     = Inr (sample_dev, [])
   \<and> fpi_imgdev_image_captured sample_env sample_driver
        (sample_dev\<lparr>action := IMG_ACTION_VERIFY,
                    action_state := IMG_ACQUIRE_STATE_AWAIT_IMAGE,
                    action_result := 100\<rparr>) (sample_img 12)
     = Inr (sample_dev\<lparr>action := IMG_ACTION_VERIFY,
                       action_state := IMG_ACQUIRE_STATE_AWAIT_IMAGE,
                       action_result := 100\<rparr>, [])"
  using image_captured_ignored_or_discarded
    [of sample_dev sample_env sample_driver "sample_img 12"]
    image_captured_ignored_or_discarded
    [of "sample_dev\<lparr>action := IMG_ACTION_VERIFY,
                    action_state := IMG_ACQUIRE_STATE_AWAIT_IMAGE,
                    action_result := 100\<rparr>" sample_env sample_driver "sample_img 12"]
  by (simp add: sample_dev_def)

text \<open>
  C10. A capture start on a device whose \<^verbatim>\<open>unconditional_capture\<close> flag is set returns
  \<^verbatim>\<open>-ENOTSUP\<close>, a negative status, and starts nothing: the device record is returned as
  it was (so the action, the acquisition state and the stage count are unchanged) and the
  trace is empty (the driver's activate is not called).
\<close>

theorem capture_start_unconditional_not_supported:
  assumes "unconditional_capture (parent d)"
  shows "img_dev_capture_start drv d = (- ENOTSUP, d, []) \<and> - ENOTSUP < 0"
  using assms by (simp add: img_dev_capture_start_def ENOTSUP_def)

theorem capture_start_unconditional_not_supported_witness:
  "unconditional_capture
     (parent (sample_dev\<lparr>parent := sample_parent\<lparr>unconditional_capture := True\<rparr>\<rparr>))
   \<and> img_dev_capture_start sample_driver
        (sample_dev\<lparr>parent := sample_parent\<lparr>unconditional_capture := True\<rparr>\<rparr>)
      = (- 95, sample_dev\<lparr>parent := sample_parent\<lparr>unconditional_capture := True\<rparr>\<rparr>, [])
   \<and> fst (img_dev_capture_start sample_driver sample_dev) = 0
   \<and> snd (snd (img_dev_capture_start sample_driver sample_dev))
      = [Drv_activate IMGDEV_STATE_AWAIT_FINGER_ON]"
  using capture_start_unconditional_not_supported
    [of "sample_dev\<lparr>parent := sample_parent\<lparr>unconditional_capture := True\<rparr>\<rparr>" sample_driver]
  by (simp add: ENOTSUP_def img_dev_capture_start_def generic_acquire_start_def
      dev_activate_def sample_dev_def sample_parent_def sample_driver_def)

section \<open>The image-captured cycle\<close>

lemma image_captured_decide_returns:
  assumes "action d \<noteq> IMG_ACTION_NONE"
    and "action d = IMG_ACTION_ENROLL \<Longrightarrow> \<exists>p. print = Some p \<and> length (prints p) = 1"
  shows "\<exists>d' tr. image_captured_decide env drv d print =
            Inr (d', tr @ snd (dev_change_state drv IMGDEV_STATE_AWAIT_FINGER_OFF))
          \<and> action_state d' = IMG_ACQUIRE_STATE_AWAIT_FINGER_OFF"
proof (cases "action d")
  case IMG_ACTION_NONE
  with assms(1) show ?thesis by simp
next
  case IMG_ACTION_ENROLL
  with assms(2) obtain p it where "print = Some p" and "prints p = [it]"
    by (auto simp add: length_Suc_conv)
  with IMG_ACTION_ENROLL show ?thesis
    by (simp add: image_captured_decide_def BUG_ON_def next_state_def Let_def)
next
  case IMG_ACTION_VERIFY
  then show ?thesis
    by (simp add: image_captured_decide_def next_state_def verify_process_img_def Let_def)
next
  case IMG_ACTION_IDENTIFY
  then show ?thesis
    by (simp add: image_captured_decide_def next_state_def identify_process_img_def Let_def
        split: prod.splits)
next
  case IMG_ACTION_CAPTURE
  then show ?thesis
    by (simp add: image_captured_decide_def next_state_def)
qed

lemma image_captured_after_sanitation:
  assumes "action_state d = IMG_ACQUIRE_STATE_AWAIT_IMAGE" and "action_result d = 0"
    and "action d \<noteq> IMG_ACTION_CAPTURE"
    and "sanitize_image env drv img = (r, img1)" and "\<not> r < 0"
    and "fpi_img_to_print_data env (fp_img_standardize env img1) = (r2, img3, pr)"
  shows "fpi_imgdev_image_captured env drv d img =
     (if r2 < 0 then
        Inr (next_state drv (d\<lparr>acquire_img := Some img3,
                               action_result := FP_ENROLL_RETRY env\<rparr>) [])
      else case minutiae img3 of
             None \<Rightarrow> Inl Null_dereference
           | Some num \<Rightarrow>
               if num < 10 then
                 Inr (next_state drv (d\<lparr>acquire_img := Some img3,
                                        action_result := FP_ENROLL_RETRY env\<rparr>)
                        (fp_print_data_free pr))
               else image_captured_decide env drv (d\<lparr>acquire_img := Some img3\<rparr>) pr)"
  using assms
  by (simp add: fpi_imgdev_image_captured_def MIN_ACCEPTABLE_MINUTIAE_def Let_def
      split: option.splits)

text \<open>
  C5. An image-captured event that is processed (the device awaits an image and no
  result is recorded) always returns with the device awaiting the finger's removal, and
  the last thing the call does is \<^verbatim>\<open>dev_change_state\<close> to the await-finger-off state,
  which reaches the driver whenever it supplies \<^verbatim>\<open>change_state\<close>: whether sanitation,
  extraction or the decision fails or succeeds. An action is in progress, and the
  extraction collaborator keeps its contract.
\<close>

theorem image_captured_always_awaits_finger_off:
  assumes "action_state d = IMG_ACQUIRE_STATE_AWAIT_IMAGE" and "action_result d = 0"
    and "action d \<noteq> IMG_ACTION_NONE" and "extraction_contract env"
  shows "\<exists>d' tr. fpi_imgdev_image_captured env drv d img =
            Inr (d', tr @ snd (dev_change_state drv IMGDEV_STATE_AWAIT_FINGER_OFF))
          \<and> action_state d' = IMG_ACQUIRE_STATE_AWAIT_FINGER_OFF
          \<and> (drv_change_state drv \<noteq> None \<longrightarrow>
               last (tr @ snd (dev_change_state drv IMGDEV_STATE_AWAIT_FINGER_OFF))
                 = Drv_change_state IMGDEV_STATE_AWAIT_FINGER_OFF)"
proof -
  have last: "drv_change_state drv \<noteq> None \<longrightarrow>
               last (tr @ snd (dev_change_state drv IMGDEV_STATE_AWAIT_FINGER_OFF))
                 = Drv_change_state IMGDEV_STATE_AWAIT_FINGER_OFF" for tr
    by (auto simp add: dev_change_state_def)
  have "\<exists>d' tr. fpi_imgdev_image_captured env drv d img =
            Inr (d', tr @ snd (dev_change_state drv IMGDEV_STATE_AWAIT_FINGER_OFF))
          \<and> action_state d' = IMG_ACQUIRE_STATE_AWAIT_FINGER_OFF"
  proof (cases "fst (sanitize_image env drv img) < 0")
    case True
    from image_captured_sanitize_failure [OF assms(1,2) True] show ?thesis
      by (intro exI [of _ "d\<lparr>action_result := - EINVAL,
            action_state := IMG_ACQUIRE_STATE_AWAIT_FINGER_OFF\<rparr>"]
          exI [of _ "[Img_free (snd (sanitize_image env drv img))]"]) simp
  next
    case False
    obtain r img1 where s: "sanitize_image env drv img = (r, img1)"
      by (cases "sanitize_image env drv img")
    with False have r: "\<not> r < 0" by simp
    show ?thesis
    proof (cases "action d = IMG_ACTION_CAPTURE")
      case True
      then have "fpi_imgdev_image_captured env drv d img =
          image_captured_decide env drv (d\<lparr>acquire_img := Some (fp_img_standardize env img1)\<rparr>) None"
        using assms(1,2) s r by (simp add: fpi_imgdev_image_captured_def)
      moreover have "\<exists>d' tr. image_captured_decide env drv
            (d\<lparr>acquire_img := Some (fp_img_standardize env img1)\<rparr>) None =
            Inr (d', tr @ snd (dev_change_state drv IMGDEV_STATE_AWAIT_FINGER_OFF))
          \<and> action_state d' = IMG_ACQUIRE_STATE_AWAIT_FINGER_OFF"
        using True by (intro image_captured_decide_returns) simp_all
      ultimately show ?thesis by simp
    next
      case False
      obtain r2 img3 pr where e:
        "fpi_img_to_print_data env (fp_img_standardize env img1) = (r2, img3, pr)"
        by (cases "fpi_img_to_print_data env (fp_img_standardize env img1)")
      from assms(4) have "case fpi_img_to_print_data env (fp_img_standardize env img1) of
          (r, img', print) \<Rightarrow> r < 0 \<or> (minutiae img' \<noteq> None
            \<and> (case print of None \<Rightarrow> False | Some p \<Rightarrow> length (prints p) = 1))"
        unfolding extraction_contract_def by (rule spec)
      with e have c: "r2 < 0 \<or> (minutiae img3 \<noteq> None
          \<and> (\<exists>p. pr = Some p \<and> length (prints p) = 1))"
        by (auto split: option.splits)
      show ?thesis
      proof (cases "r2 < 0")
        case True
        then show ?thesis using assms(1,2) s r False e
          by (simp add: fpi_imgdev_image_captured_def next_state_def)
      next
        case nonneg: False
        with c obtain n p where n: "minutiae img3 = Some n" and p: "pr = Some p"
          "length (prints p) = 1" by auto
        show ?thesis
        proof (cases "n < MIN_ACCEPTABLE_MINUTIAE")
          case True
          then show ?thesis using assms(1,2) s r False e nonneg n
            by (simp add: fpi_imgdev_image_captured_def next_state_def)
        next
          case big: False
          have "fpi_imgdev_image_captured env drv d img =
              image_captured_decide env drv (d\<lparr>acquire_img := Some img3\<rparr>) pr"
            using assms(1,2) s r False e nonneg n big
            by (simp add: fpi_imgdev_image_captured_def)
          moreover have "\<exists>d' tr. image_captured_decide env drv
              (d\<lparr>acquire_img := Some img3\<rparr>) pr =
              Inr (d', tr @ snd (dev_change_state drv IMGDEV_STATE_AWAIT_FINGER_OFF))
              \<and> action_state d' = IMG_ACQUIRE_STATE_AWAIT_FINGER_OFF"
            using assms(3) p by (intro image_captured_decide_returns) simp_all
          ultimately show ?thesis by simp
        qed
      qed
    qed
  qed
  with last show ?thesis by blast
qed

theorem image_captured_always_awaits_finger_off_witness:
  "action_state (sample_awaiting_image IMG_ACTION_ENROLL) = IMG_ACQUIRE_STATE_AWAIT_IMAGE
   \<and> action_result (sample_awaiting_image IMG_ACTION_ENROLL) = 0
   \<and> action (sample_awaiting_image IMG_ACTION_ENROLL) \<noteq> IMG_ACTION_NONE
   \<and> extraction_contract sample_env
   \<and> map_sum id (\<lambda>(d, tr). (action_result d, action_state d, tr))
        (fpi_imgdev_image_captured sample_env sample_driver
           (sample_awaiting_image IMG_ACTION_ENROLL) ((sample_img 12)\<lparr>height := 0\<rparr>))
       = Inr (- 22, IMG_ACQUIRE_STATE_AWAIT_FINGER_OFF,
              [Img_free ((sample_img 12)\<lparr>height := 0\<rparr>),
               Drv_change_state IMGDEV_STATE_AWAIT_FINGER_OFF])
   \<and> map_sum id (\<lambda>(d, tr). (action_result d, action_state d, tr))
        (fpi_imgdev_image_captured sample_env sample_driver
           (sample_awaiting_image IMG_ACTION_ENROLL) (sample_img 0))
       = Inr (100, IMG_ACQUIRE_STATE_AWAIT_FINGER_OFF,
              [Drv_change_state IMGDEV_STATE_AWAIT_FINGER_OFF])
   \<and> map_sum id (\<lambda>(d, tr). (action_result d, action_state d, tr))
        (fpi_imgdev_image_captured sample_env sample_driver
           (sample_awaiting_image IMG_ACTION_ENROLL) (sample_img 12))
       = Inr (3, IMG_ACQUIRE_STATE_AWAIT_FINGER_OFF,
              [Print_data_free \<lparr>data_type = PRINT_DATA_NBIS_MINUTIAE, prints = []\<rparr>,
               Drv_change_state IMGDEV_STATE_AWAIT_FINGER_OFF])"
  using image_captured_always_awaits_finger_off
      [of "sample_awaiting_image IMG_ACTION_ENROLL" sample_env sample_driver
        "(sample_img 12)\<lparr>height := 0\<rparr>"]
    sample_env_extraction_contract
  by (simp add: model_defs sample_defs Let_def numeral_eq_Suc)

text \<open>
  C7. For an action other than capture, once sanitation has succeeded: if extraction
  fails the result is \<^verbatim>\<open>FP_ENROLL_RETRY\<close> and nothing is released; if it succeeds with
  fewer than 10 minutiae the result is \<^verbatim>\<open>FP_ENROLL_RETRY\<close> and the template just produced
  is freed; with 10 minutiae or more the call goes on to the decision step with that
  template, which for verify and identify ends the call with the template stored as
  \<^verbatim>\<open>acquire_data\<close> and nothing released.
\<close>

theorem minutiae_acceptance_gate:
  assumes "action_state d = IMG_ACQUIRE_STATE_AWAIT_IMAGE" and "action_result d = 0"
    and "action d \<noteq> IMG_ACTION_CAPTURE"
    and "sanitize_image env drv img = (r, img1)" and "\<not> r < 0"
    and "fpi_img_to_print_data env (fp_img_standardize env img1) = (r2, img3, pr)"
  shows "(r2 < 0 \<longrightarrow>
            fpi_imgdev_image_captured env drv d img =
              Inr (d\<lparr>acquire_img := Some img3,
                      action_result := FP_ENROLL_RETRY env,
                      action_state := IMG_ACQUIRE_STATE_AWAIT_FINGER_OFF\<rparr>,
                   snd (dev_change_state drv IMGDEV_STATE_AWAIT_FINGER_OFF)))
       \<and> (\<not> r2 < 0 \<and> minutiae img3 = Some n \<and> n < 10 \<longrightarrow>
            fpi_imgdev_image_captured env drv d img =
              Inr (d\<lparr>acquire_img := Some img3,
                      action_result := FP_ENROLL_RETRY env,
                      action_state := IMG_ACQUIRE_STATE_AWAIT_FINGER_OFF\<rparr>,
                   fp_print_data_free pr
                     @ snd (dev_change_state drv IMGDEV_STATE_AWAIT_FINGER_OFF)))
       \<and> (\<not> r2 < 0 \<and> minutiae img3 = Some n \<and> 10 \<le> n \<longrightarrow>
            fpi_imgdev_image_captured env drv d img =
              image_captured_decide env drv (d\<lparr>acquire_img := Some img3\<rparr>) pr)
       \<and> (\<not> r2 < 0 \<and> minutiae img3 = Some n \<and> 10 \<le> n
            \<and> (action d = IMG_ACTION_VERIFY \<or> action d = IMG_ACTION_IDENTIFY) \<longrightarrow>
            (\<exists>d'. fpi_imgdev_image_captured env drv d img =
                    Inr (d', snd (dev_change_state drv IMGDEV_STATE_AWAIT_FINGER_OFF))
                 \<and> acquire_data d' = pr))"
  using image_captured_after_sanitation [OF assms]
  by (auto simp add: next_state_def image_captured_decide_def verify_process_img_def
      identify_process_img_def Let_def split: prod.splits)

theorem minutiae_acceptance_gate_witness:
  "action_state (sample_awaiting_image IMG_ACTION_VERIFY) = IMG_ACQUIRE_STATE_AWAIT_IMAGE
   \<and> action_result (sample_awaiting_image IMG_ACTION_VERIFY) = 0
   \<and> action (sample_awaiting_image IMG_ACTION_VERIFY) \<noteq> IMG_ACTION_CAPTURE
   \<and> sanitize_image sample_env sample_driver (sample_img 9) = (0, sample_img 9)
   \<and> fpi_img_to_print_data sample_env (fp_img_standardize sample_env (sample_img 9))
       = (0, (sample_img 9)\<lparr>minutiae := Some 9\<rparr>, Some (sample_template 9))
   \<and> fpi_imgdev_image_captured sample_env sample_driver
        (sample_awaiting_image IMG_ACTION_VERIFY) (sample_img 9)
       = Inr ((sample_awaiting_image IMG_ACTION_VERIFY)
                \<lparr>acquire_img := Some ((sample_img 9)\<lparr>minutiae := Some 9\<rparr>),
                 action_result := 100,
                 action_state := IMG_ACQUIRE_STATE_AWAIT_FINGER_OFF\<rparr>,
              [Print_data_free (sample_template 9),
               Drv_change_state IMGDEV_STATE_AWAIT_FINGER_OFF])
   \<and> fpi_imgdev_image_captured sample_env sample_driver
        (sample_awaiting_image IMG_ACTION_VERIFY) (sample_img 10)
       = Inr ((sample_awaiting_image IMG_ACTION_VERIFY)
                \<lparr>acquire_img := Some ((sample_img 10)\<lparr>minutiae := Some 10\<rparr>),
                 acquire_data := Some (sample_template 10),
                 action_result := 0,
                 action_state := IMG_ACQUIRE_STATE_AWAIT_FINGER_OFF\<rparr>,
              [Drv_change_state IMGDEV_STATE_AWAIT_FINGER_OFF])
   \<and> fpi_imgdev_image_captured sample_env sample_driver
        (sample_awaiting_image IMG_ACTION_VERIFY) (sample_img 0)
       = Inr ((sample_awaiting_image IMG_ACTION_VERIFY)
                \<lparr>acquire_img := Some (sample_img 0),
                 action_result := 100,
                 action_state := IMG_ACQUIRE_STATE_AWAIT_FINGER_OFF\<rparr>,
              [Drv_change_state IMGDEV_STATE_AWAIT_FINGER_OFF])"
  using minutiae_acceptance_gate
      [where d = "sample_awaiting_image IMG_ACTION_VERIFY" and env = sample_env
        and drv = sample_driver and img = "sample_img 9" and r = 0
        and ?img1.0 = "sample_img 9" and ?r2.0 = 0
        and ?img3.0 = "(sample_img 9)\<lparr>minutiae := Some 9\<rparr>"
        and pr = "Some (sample_template 9)" and n = 9]
  by (simp add: model_defs sample_defs Let_def numeral_eq_Suc)

text \<open>
  C3 (as amended). In a verify cycle whose template is accepted, with the threshold the
  driver's \<^verbatim>\<open>bz3_threshold\<close> if that is not zero and 40 otherwise, and \<open>s\<close> the comparison
  score: \<open>s \<ge> threshold\<close> gives \<^verbatim>\<open>FP_VERIFY_MATCH\<close>; \<open>0 \<le> s < threshold\<close> gives
  \<^verbatim>\<open>FP_VERIFY_NO_MATCH\<close>; and a negative score below the threshold (every negative score,
  when the threshold is not negative) is itself the action result.
\<close>

theorem verify_threshold_decision:
  assumes "action_state d = IMG_ACQUIRE_STATE_AWAIT_IMAGE" and "action_result d = 0"
    and "action d = IMG_ACTION_VERIFY"
    and "sanitize_image env drv img = (r, img1)" and "\<not> r < 0"
    and "fpi_img_to_print_data env (fp_img_standardize env img1) = (r2, img3, pr)"
    and "\<not> r2 < 0" and "minutiae img3 = Some n" and "10 \<le> n"
    and "threshold = (if bz3_threshold drv = 0 then 40 else bz3_threshold drv)"
    and "s = fpi_img_compare_print_data env (verify_data (parent d)) pr"
  shows "\<exists>res. fpi_imgdev_image_captured env drv d img =
              Inr (d\<lparr>acquire_img := Some img3,
                      acquire_data := pr,
                      action_result := res,
                      action_state := IMG_ACQUIRE_STATE_AWAIT_FINGER_OFF\<rparr>,
                   snd (dev_change_state drv IMGDEV_STATE_AWAIT_FINGER_OFF))
          \<and> (s \<ge> threshold \<longrightarrow> res = FP_VERIFY_MATCH env)
          \<and> (0 \<le> s \<and> s < threshold \<longrightarrow> res = FP_VERIFY_NO_MATCH env)
          \<and> (s < 0 \<and> s < threshold \<longrightarrow> res = s)"
proof -
  have "action d \<noteq> IMG_ACTION_CAPTURE" using assms(3) by simp
  from image_captured_after_sanitation [OF assms(1,2) this assms(4,5,6)] assms(3,7-11)
  show ?thesis
    by (simp add: next_state_def image_captured_decide_def verify_process_img_def
        BOZORTH3_DEFAULT_THRESHOLD_def Let_def)
qed

theorem verify_threshold_decision_witness:
  "action_state (sample_awaiting_image IMG_ACTION_VERIFY) = IMG_ACQUIRE_STATE_AWAIT_IMAGE
   \<and> action_result (sample_awaiting_image IMG_ACTION_VERIFY) = 0
   \<and> action (sample_awaiting_image IMG_ACTION_VERIFY) = IMG_ACTION_VERIFY
   \<and> sanitize_image sample_env (sample_driver\<lparr>bz3_threshold := 50\<rparr>) (sample_img 12)
       = (0, sample_img 12)
   \<and> fpi_img_to_print_data sample_env (fp_img_standardize sample_env (sample_img 12))
       = (0, (sample_img 12)\<lparr>minutiae := Some 12\<rparr>, Some (sample_template 12))
   \<and> fpi_img_compare_print_data sample_env
        (verify_data (parent (sample_awaiting_image IMG_ACTION_VERIFY)))
        (Some (sample_template 12)) = 50
   \<and> fpi_imgdev_image_captured sample_env (sample_driver\<lparr>bz3_threshold := 50\<rparr>)
        (sample_awaiting_image IMG_ACTION_VERIFY) (sample_img 12)
       = Inr ((sample_awaiting_image IMG_ACTION_VERIFY)
                \<lparr>acquire_img := Some ((sample_img 12)\<lparr>minutiae := Some 12\<rparr>),
                 acquire_data := Some (sample_template 12),
                 action_result := FP_VERIFY_MATCH sample_env,
                 action_state := IMG_ACQUIRE_STATE_AWAIT_FINGER_OFF\<rparr>,
              [Drv_change_state IMGDEV_STATE_AWAIT_FINGER_OFF])
   \<and> map_sum id (\<lambda>(d, tr). action_result d)
        (fpi_imgdev_image_captured sample_env (sample_driver\<lparr>bz3_threshold := 51\<rparr>)
           (sample_awaiting_image IMG_ACTION_VERIFY) (sample_img 12))
       = Inr (FP_VERIFY_NO_MATCH sample_env)
   \<and> map_sum id (\<lambda>(d, tr). action_result d)
        (fpi_imgdev_image_captured sample_env sample_driver
           (sample_awaiting_image IMG_ACTION_VERIFY) (sample_img 12))
       = Inr (FP_VERIFY_MATCH sample_env)
   \<and> map_sum id (\<lambda>(d, tr). action_result d)
        (fpi_imgdev_image_captured sample_env sample_driver
           ((sample_awaiting_image IMG_ACTION_VERIFY)\<lparr>parent := sample_parent\<rparr>)
           (sample_img 12))
       = Inr (- 1)"
proof -
  have h1: "action_state (sample_awaiting_image IMG_ACTION_VERIFY)
      = IMG_ACQUIRE_STATE_AWAIT_IMAGE"
    and h2: "action_result (sample_awaiting_image IMG_ACTION_VERIFY) = 0"
    and h3: "action (sample_awaiting_image IMG_ACTION_VERIFY) = IMG_ACTION_VERIFY"
    by (simp_all add: sample_defs)
  have h4: "sanitize_image sample_env (sample_driver\<lparr>bz3_threshold := 50\<rparr>) (sample_img 12)
       = (0, sample_img 12)"
    by (simp add: model_defs sample_defs Let_def)
  have h5: "\<not> (0::int) < 0" by simp
  have h6: "fpi_img_to_print_data sample_env (fp_img_standardize sample_env (sample_img 12))
       = (0, (sample_img 12)\<lparr>minutiae := Some 12\<rparr>, Some (sample_template 12))"
    by (simp add: model_defs sample_defs Let_def numeral_eq_Suc)
  have h7: "minutiae ((sample_img 12)\<lparr>minutiae := Some 12\<rparr>) = Some 12"
    and h8: "(10::int) \<le> 12" by simp_all
  have h9: "50 = (if bz3_threshold (sample_driver\<lparr>bz3_threshold := 50\<rparr>) = 0 then 40
      else bz3_threshold (sample_driver\<lparr>bz3_threshold := 50\<rparr>))" by simp
  have h10: "50 = fpi_img_compare_print_data sample_env
        (verify_data (parent (sample_awaiting_image IMG_ACTION_VERIFY)))
        (Some (sample_template 12))"
    by (simp add: model_defs sample_defs Let_def)
  from verify_threshold_decision [OF h1 h2 h3 h4 h5 h6 h5 h7 h8 h9 h10]
  have m: "fpi_imgdev_image_captured sample_env (sample_driver\<lparr>bz3_threshold := 50\<rparr>)
        (sample_awaiting_image IMG_ACTION_VERIFY) (sample_img 12)
       = Inr ((sample_awaiting_image IMG_ACTION_VERIFY)
                \<lparr>acquire_img := Some ((sample_img 12)\<lparr>minutiae := Some 12\<rparr>),
                 acquire_data := Some (sample_template 12),
                 action_result := FP_VERIFY_MATCH sample_env,
                 action_state := IMG_ACQUIRE_STATE_AWAIT_FINGER_OFF\<rparr>,
              [Drv_change_state IMGDEV_STATE_AWAIT_FINGER_OFF])"
    by (auto simp add: dev_change_state_def sample_driver_def)
  have rest: "map_sum id (\<lambda>(d, tr). action_result d)
        (fpi_imgdev_image_captured sample_env (sample_driver\<lparr>bz3_threshold := 51\<rparr>)
           (sample_awaiting_image IMG_ACTION_VERIFY) (sample_img 12))
       = Inr (FP_VERIFY_NO_MATCH sample_env)"
    "map_sum id (\<lambda>(d, tr). action_result d)
        (fpi_imgdev_image_captured sample_env sample_driver
           (sample_awaiting_image IMG_ACTION_VERIFY) (sample_img 12))
       = Inr (FP_VERIFY_MATCH sample_env)"
    "map_sum id (\<lambda>(d, tr). action_result d)
        (fpi_imgdev_image_captured sample_env sample_driver
           ((sample_awaiting_image IMG_ACTION_VERIFY)\<lparr>parent := sample_parent\<rparr>)
           (sample_img 12))
       = Inr (- 1)"
    by (simp_all add: model_defs sample_defs Let_def numeral_eq_Suc)
  from h1 h2 h3 h4 h6 h10 [symmetric] m rest show ?thesis by blast
qed

text \<open>
  C3 as stated fails for a driver that declares a negative threshold: with the threshold
  \<open>-5\<close> and the comparison error \<open>-1\<close> the score reaches the threshold, and the action
  result is \<^verbatim>\<open>FP_VERIFY_MATCH\<close>, not the negative score.
\<close>

theorem verify_negative_threshold_counterexample:
  "fpi_img_compare_print_data sample_env (verify_data sample_parent)
       (Some (sample_template 12)) = - 1
   \<and> bz3_threshold (sample_driver\<lparr>bz3_threshold := - 5\<rparr>) = - 5
   \<and> fpi_imgdev_image_captured sample_env (sample_driver\<lparr>bz3_threshold := - 5\<rparr>)
        ((sample_awaiting_image IMG_ACTION_VERIFY)\<lparr>parent := sample_parent\<rparr>) (sample_img 12)
       = Inr ((sample_awaiting_image IMG_ACTION_VERIFY)
                \<lparr>parent := sample_parent,
                 acquire_img := Some ((sample_img 12)\<lparr>minutiae := Some 12\<rparr>),
                 acquire_data := Some (sample_template 12),
                 action_result := FP_VERIFY_MATCH sample_env,
                 action_state := IMG_ACQUIRE_STATE_AWAIT_FINGER_OFF\<rparr>,
              [Drv_change_state IMGDEV_STATE_AWAIT_FINGER_OFF])
   \<and> FP_VERIFY_MATCH sample_env \<noteq> - 1"
  by (simp add: model_defs sample_defs Let_def numeral_eq_Suc)

section \<open>The enrollment stage count\<close>

lemma caller_keeps_stage:
  assumes "caller_returns_or_cancels env"
  shows "enroll_stage (caller env ev d) = enroll_stage d"
    and "parent (caller env ev d) = parent d"
proof -
  from assms have "caller env ev d = d
        \<or> (enroll_stage (caller env ev d) = enroll_stage d
           \<and> parent (caller env ev d) = parent d
           \<and> action_result (caller env ev d) = 0
           \<and> (action_state (caller env ev d) = IMG_ACQUIRE_STATE_DEACTIVATING
              \<or> action_state (caller env ev d) = IMG_ACQUIRE_STATE_NONE))"
    unfolding caller_returns_or_cancels_def by blast
  then show "enroll_stage (caller env ev d) = enroll_stage d"
    and "parent (caller env ev d) = parent d" by auto
qed

lemma img_dev_open_stage_count:
  assumes "caller_returns_or_cancels env"
    and "img_dev_open env drv dev driver_data = (r, Some d, tr)"
  shows "nr_enroll_stages (parent d) = 5 \<and> enroll_stage d = 0"
  using assms(2) caller_keeps_stage [OF assms(1)]
  by (auto simp add: img_dev_open_def upcall_def IMG_ENROLL_STAGES_def Let_def
      split: option.splits if_splits)

lemma caller_keeps_invariant:
  assumes "caller_returns_or_cancels env" and "stage_invariant env d"
  shows "stage_invariant env (caller env ev d)"
proof -
  from assms(1) have "caller env ev d = d
        \<or> (enroll_stage (caller env ev d) = enroll_stage d
           \<and> parent (caller env ev d) = parent d
           \<and> action_result (caller env ev d) = 0
           \<and> (action_state (caller env ev d) = IMG_ACQUIRE_STATE_DEACTIVATING
              \<or> action_state (caller env ev d) = IMG_ACQUIRE_STATE_NONE))"
    unfolding caller_returns_or_cancels_def by blast
  with assms(2) show ?thesis
    by (auto simp add: stage_invariant_def)
qed

lemma stage_invariant_fields:
  "stage_invariant env (d\<lparr>acquire_img := x\<rparr>) = stage_invariant env d"
  "stage_invariant env (d\<lparr>acquire_data := y\<rparr>) = stage_invariant env d"
  "stage_invariant env (d\<lparr>enroll_data := z\<rparr>) = stage_invariant env d"
  "stage_invariant env (d\<lparr>identify_match_offset := k\<rparr>) = stage_invariant env d"
  "stage_invariant env (d\<lparr>action := a\<rparr>) = stage_invariant env d"
  by (simp_all add: stage_invariant_def)

lemma stage_invariant_result_zero:
  "stage_invariant env d \<Longrightarrow> stage_invariant env (d\<lparr>action_result := 0\<rparr>)"
  by (auto simp add: stage_invariant_def)

lemma stage_invariant_below:
  "stage_invariant env d \<Longrightarrow> enroll_stage d < nr_enroll_stages (parent d) \<Longrightarrow>
   stage_invariant env (d\<lparr>action_result := r, action_state := st\<rparr>)"
  by (auto simp add: stage_invariant_def)

lemma stage_invariant_finger_off:
  "stage_invariant env d \<Longrightarrow>
   stage_invariant env (d\<lparr>action_state := IMG_ACQUIRE_STATE_AWAIT_FINGER_OFF\<rparr>)"
  "stage_invariant env d \<Longrightarrow>
   stage_invariant env (d\<lparr>action_state := IMG_ACQUIRE_STATE_DEACTIVATING\<rparr>)"
  "stage_invariant env d \<Longrightarrow>
   stage_invariant env (d\<lparr>action_state := IMG_ACQUIRE_STATE_NONE\<rparr>)"
  by (auto simp add: stage_invariant_def)

lemma stage_invariant_awaiting:
  "stage_invariant env d \<Longrightarrow>
   action_state d = IMG_ACQUIRE_STATE_ACTIVATING
     \<or> action_state d = IMG_ACQUIRE_STATE_AWAIT_FINGER_ON
     \<or> action_state d = IMG_ACQUIRE_STATE_AWAIT_IMAGE \<Longrightarrow>
   enroll_stage d < nr_enroll_stages (parent d)"
  by (auto simp add: stage_invariant_def)

lemma stage_invariant_rearm:
  "stage_invariant env d \<Longrightarrow>
   0 < action_result d \<Longrightarrow> action_result d \<noteq> FP_ENROLL_COMPLETE env \<Longrightarrow>
   action_result d \<noteq> FP_ENROLL_FAIL env \<Longrightarrow>
   enroll_stage d < nr_enroll_stages (parent d)"
  by (auto simp add: stage_invariant_def)

lemma stage_invariant_positive:
  "stage_invariant env d \<Longrightarrow> 0 < nr_enroll_stages (parent d)"
  "stage_invariant env d \<Longrightarrow> nr_enroll_stages (parent d) \<le> INT_MAX"
  by (simp_all add: stage_invariant_def)

lemma report_finger_status_invariant:
  assumes c: "caller_returns_or_cancels env" and i: "stage_invariant env d"
    and r: "fpi_imgdev_report_finger_status env drv d present = (d', tr)"
  shows "stage_invariant env d'"
proof (cases "present \<and> action_state d = IMG_ACQUIRE_STATE_AWAIT_FINGER_ON")
  case True
  with r have "d' = d\<lparr>action_state := IMG_ACQUIRE_STATE_AWAIT_IMAGE\<rparr>"
    by (auto simp add: fpi_imgdev_report_finger_status_def Let_def)
  moreover from i True have "enroll_stage d < nr_enroll_stages (parent d)"
    by (auto dest: stage_invariant_awaiting)
  ultimately show ?thesis using i by (auto simp add: stage_invariant_def)
next
  case False
  then have nf: "(present \<and> action_state d = IMG_ACQUIRE_STATE_AWAIT_FINGER_ON) = False"
    by simp
  let ?d1 = "d\<lparr>acquire_img := None, acquire_data := None\<rparr>"
  have i1: "stage_invariant env ?d1" using i by (simp add: stage_invariant_fields)
  show ?thesis
  proof (cases "action d")
    case IMG_ACTION_NONE
    with r i1 show ?thesis
      by (auto simp add: fpi_imgdev_report_finger_status_def Let_def nf)
  next
    case IMG_ACTION_ENROLL
    define d2 where "d2 =
      (if action_result d = FP_ENROLL_COMPLETE env then ?d1\<lparr>enroll_data := None\<rparr> else ?d1)"
    define ev where "ev = Drvcb_enroll_stage_completed (action_result d)
       (if action_result d = FP_ENROLL_COMPLETE env
        then Some ((fpi_print_data_new env)\<lparr>data_type := PRINT_DATA_NBIS_MINUTIAE,
               prints := fpi_print_data_item_new env (sizeof_xyt_struct env)
                  # prints (fpi_print_data_new env)\<rparr>) else None) (acquire_img d)"
    define d3 where "d3 = caller env ev d2"
    have eq: "fpi_imgdev_report_finger_status env drv d present =
        (if action d3 = IMG_ACTION_ENROLL \<and> 0 < action_result d
            \<and> action_result d \<noteq> FP_ENROLL_COMPLETE env
            \<and> action_result d \<noteq> FP_ENROLL_FAIL env
         then (d3\<lparr>action_result := 0, action_state := IMG_ACQUIRE_STATE_AWAIT_FINGER_ON\<rparr>,
               [ev] @ snd (dev_change_state drv IMGDEV_STATE_AWAIT_FINGER_ON))
         else (d3, [ev]))"
      unfolding d3_def ev_def d2_def using IMG_ACTION_ENROLL
      by (simp add: fpi_imgdev_report_finger_status_def Let_def upcall_def nf)
    have i2: "stage_invariant env d2"
      unfolding d2_def using i1 by (simp add: stage_invariant_fields)
    then have i3: "stage_invariant env d3"
      unfolding d3_def by (rule caller_keeps_invariant [OF c])
    have s3: "enroll_stage d3 = enroll_stage d" "parent d3 = parent d"
      unfolding d3_def d2_def by (simp_all add: caller_keeps_stage [OF c])
    show ?thesis
    proof (cases "action d3 = IMG_ACTION_ENROLL \<and> 0 < action_result d
         \<and> action_result d \<noteq> FP_ENROLL_COMPLETE env \<and> action_result d \<noteq> FP_ENROLL_FAIL env")
      case True
      with i have "enroll_stage d < nr_enroll_stages (parent d)"
        by (auto dest: stage_invariant_rearm)
      with s3 have "enroll_stage d3 < nr_enroll_stages (parent d3)" by simp
      with i3 have "stage_invariant env
          (d3\<lparr>action_result := 0, action_state := IMG_ACQUIRE_STATE_AWAIT_FINGER_ON\<rparr>)"
        by (rule stage_invariant_below)
      moreover from r eq True
      have "d' = d3\<lparr>action_result := 0, action_state := IMG_ACQUIRE_STATE_AWAIT_FINGER_ON\<rparr>"
        by simp
      ultimately show ?thesis by simp
    next
      case no: False
      with r eq have "d' = d3" by auto
      with i3 show ?thesis by simp
    qed
  next
    case IMG_ACTION_VERIFY
    with r have "d' = (caller env (Drvcb_report_verify_result (action_result d)
        (acquire_img d)) ?d1)\<lparr>action_result := 0\<rparr>"
      by (auto simp add: fpi_imgdev_report_finger_status_def Let_def upcall_def nf)
    with i1 show ?thesis
      by (simp add: stage_invariant_result_zero caller_keeps_invariant [OF c])
  next
    case IMG_ACTION_IDENTIFY
    with r have "d' = (caller env (Drvcb_report_identify_result (action_result d)
        (identify_match_offset d) (acquire_img d)) ?d1)\<lparr>action_result := 0\<rparr>"
      by (auto simp add: fpi_imgdev_report_finger_status_def Let_def upcall_def nf)
    with i1 show ?thesis
      by (simp add: stage_invariant_result_zero caller_keeps_invariant [OF c])
  next
    case IMG_ACTION_CAPTURE
    with r have "d' = (caller env (Drvcb_report_capture_result (action_result d)
        (acquire_img d)) ?d1)\<lparr>action_result := 0\<rparr>"
      by (auto simp add: fpi_imgdev_report_finger_status_def Let_def upcall_def nf)
    with i1 show ?thesis
      by (simp add: stage_invariant_result_zero caller_keeps_invariant [OF c])
  qed
qed

lemma int_wrap_in_range:
  "INT_MIN \<le> x \<Longrightarrow> x \<le> INT_MAX \<Longrightarrow> int_wrap x = x"
  by (simp add: int_wrap_def INT_MIN_def INT_MAX_def)

lemma image_captured_decide_invariant:
  assumes i: "stage_invariant env d"
    and b: "enroll_stage d < nr_enroll_stages (parent d)"
    and r: "image_captured_decide env drv d print = Inr (d', tr)"
  shows "stage_invariant env d'"
proof (cases "action d")
  case IMG_ACTION_NONE
  with r have "d' = d\<lparr>acquire_data := print,
      action_state := IMG_ACQUIRE_STATE_AWAIT_FINGER_OFF\<rparr>"
    by (auto simp add: image_captured_decide_def BUG_ON_def next_state_def split: if_splits)
  with i show ?thesis
    by (simp add: stage_invariant_fields stage_invariant_finger_off)
next
  case IMG_ACTION_ENROLL
  from i b have "INT_MIN \<le> enroll_stage d + 1" and "enroll_stage d + 1 \<le> INT_MAX"
    by (auto simp add: stage_invariant_def INT_MIN_def)
  then have w: "int_wrap (enroll_stage d + 1) = enroll_stage d + 1"
    by (rule int_wrap_in_range)
  from IMG_ACTION_ENROLL r
  have "enroll_stage d' = int_wrap (enroll_stage d + 1)" and "parent d' = parent d"
    and "action_state d' = IMG_ACQUIRE_STATE_AWAIT_FINGER_OFF"
    and "action_result d' =
          (if int_wrap (enroll_stage d + 1) = nr_enroll_stages (parent d)
           then FP_ENROLL_COMPLETE env else FP_ENROLL_PASS env)"
    by (auto simp add: image_captured_decide_def BUG_ON_def next_state_def Let_def
        split: option.splits list.splits if_splits)
  with i b w show ?thesis
    by (auto simp add: stage_invariant_def)
next
  case IMG_ACTION_VERIFY
  with r have "enroll_stage d' = enroll_stage d" and "parent d' = parent d"
    and "action_state d' = IMG_ACQUIRE_STATE_AWAIT_FINGER_OFF"
    by (auto simp add: image_captured_decide_def next_state_def verify_process_img_def Let_def)
  with i b show ?thesis
    by (auto simp add: stage_invariant_def)
next
  case IMG_ACTION_IDENTIFY
  with r have "enroll_stage d' = enroll_stage d" and "parent d' = parent d"
    and "action_state d' = IMG_ACQUIRE_STATE_AWAIT_FINGER_OFF"
    by (auto simp add: image_captured_decide_def next_state_def identify_process_img_def
        Let_def split: prod.splits)
  with i b show ?thesis
    by (auto simp add: stage_invariant_def)
next
  case IMG_ACTION_CAPTURE
  with r have "enroll_stage d' = enroll_stage d" and "parent d' = parent d"
    and "action_state d' = IMG_ACQUIRE_STATE_AWAIT_FINGER_OFF"
    by (auto simp add: image_captured_decide_def next_state_def)
  with i b show ?thesis
    by (auto simp add: stage_invariant_def)
qed

lemma image_captured_invariant:
  assumes i: "stage_invariant env d"
    and r: "fpi_imgdev_image_captured env drv d img = Inr (d', tr)"
  shows "stage_invariant env d'"
proof (cases "action_state d \<noteq> IMG_ACQUIRE_STATE_AWAIT_IMAGE \<or> action_result d \<noteq> 0")
  case True
  from image_captured_early_return [OF True, of env drv img] r i show ?thesis
    by simp
next
  case False
  then have st: "action_state d = IMG_ACQUIRE_STATE_AWAIT_IMAGE" and res: "action_result d = 0"
    by simp_all
  from i st have b: "enroll_stage d < nr_enroll_stages (parent d)"
    by (auto dest: stage_invariant_awaiting)
  have below: "stage_invariant env
      (d\<lparr>acquire_img := x, action_result := v,
          action_state := IMG_ACQUIRE_STATE_AWAIT_FINGER_OFF\<rparr>)" for x v
    using i b by (auto simp add: stage_invariant_def)
  have below': "stage_invariant env
      (d\<lparr>action_result := v, action_state := IMG_ACQUIRE_STATE_AWAIT_FINGER_OFF\<rparr>)" for v
    using i b by (auto simp add: stage_invariant_def)
  obtain r1 img1 where s: "sanitize_image env drv img = (r1, img1)"
    by (cases "sanitize_image env drv img")
  show ?thesis
  proof (cases "r1 < 0")
    case True
    with r st res s have "d' = d\<lparr>action_result := r1,
        action_state := IMG_ACQUIRE_STATE_AWAIT_FINGER_OFF\<rparr>"
      by (simp add: fpi_imgdev_image_captured_def next_state_def)
    with below' show ?thesis by simp
  next
    case ok: False
    show ?thesis
    proof (cases "action d = IMG_ACTION_CAPTURE")
      case True
      with r st res s ok have "image_captured_decide env drv
          (d\<lparr>acquire_img := Some (fp_img_standardize env img1)\<rparr>) None = Inr (d', tr)"
        by (simp add: fpi_imgdev_image_captured_def)
      moreover have "stage_invariant env (d\<lparr>acquire_img := Some (fp_img_standardize env img1)\<rparr>)"
        using i by (simp add: stage_invariant_fields)
      ultimately show ?thesis using b
        by (auto intro: image_captured_decide_invariant)
    next
      case False
      obtain r2 img3 pr where e:
        "fpi_img_to_print_data env (fp_img_standardize env img1) = (r2, img3, pr)"
        by (cases "fpi_img_to_print_data env (fp_img_standardize env img1)")
      from image_captured_after_sanitation [OF st res False s ok e] r
      have c: "(if r2 < 0 then
        Inr (next_state drv (d\<lparr>acquire_img := Some img3,
                               action_result := FP_ENROLL_RETRY env\<rparr>) [])
      else case minutiae img3 of
             None \<Rightarrow> Inl Null_dereference
           | Some num \<Rightarrow>
               if num < 10 then
                 Inr (next_state drv (d\<lparr>acquire_img := Some img3,
                                        action_result := FP_ENROLL_RETRY env\<rparr>)
                        (fp_print_data_free pr))
               else image_captured_decide env drv (d\<lparr>acquire_img := Some img3\<rparr>) pr)
        = Inr (d', tr)" by simp
      show ?thesis
      proof (cases "r2 < 0")
        case True
        with c have "d' = d\<lparr>acquire_img := Some img3,
            action_result := FP_ENROLL_RETRY env,
            action_state := IMG_ACQUIRE_STATE_AWAIT_FINGER_OFF\<rparr>"
          by (simp add: next_state_def)
        with below show ?thesis by simp
      next
        case nonneg: False
        with c obtain n where n: "minutiae img3 = Some n"
          by (cases "minutiae img3") simp_all
        show ?thesis
        proof (cases "n < 10")
          case True
          with c nonneg n have "d' = d\<lparr>acquire_img := Some img3,
              action_result := FP_ENROLL_RETRY env,
              action_state := IMG_ACQUIRE_STATE_AWAIT_FINGER_OFF\<rparr>"
            by (simp add: next_state_def)
          with below show ?thesis by simp
        next
          case False
          with c nonneg n have "image_captured_decide env drv
              (d\<lparr>acquire_img := Some img3\<rparr>) pr = Inr (d', tr)" by simp
          moreover have "stage_invariant env (d\<lparr>acquire_img := Some img3\<rparr>)"
            using i by (simp add: stage_invariant_fields)
          ultimately show ?thesis using b
            by (auto intro: image_captured_decide_invariant)
        qed
      qed
    qed
  qed
qed

lemma activate_complete_invariant:
  assumes c: "caller_returns_or_cancels env" and i: "stage_invariant env d"
    and st: "action_state d = IMG_ACQUIRE_STATE_ACTIVATING"
    and r: "fpi_imgdev_activate_complete env drv d status = (d', tr)"
  shows "stage_invariant env d'"
proof -
  from i st have b: "enroll_stage d < nr_enroll_stages (parent d)"
    by (auto dest: stage_invariant_awaiting)
  have k: "stage_invariant env (caller env ev d)"
       "enroll_stage (caller env ev d) < nr_enroll_stages (parent (caller env ev d))" for ev
    using i b by (simp_all add: caller_keeps_invariant [OF c] caller_keeps_stage [OF c])
  have "stage_invariant env (caller env ev d)
      \<and> stage_invariant env ((caller env ev d)\<lparr>action_state := IMG_ACQUIRE_STATE_AWAIT_FINGER_ON\<rparr>)" for ev
    using k [of ev] by (auto simp add: stage_invariant_def)
  with r i show ?thesis
    by (cases "action d")
       (auto simp add: fpi_imgdev_activate_complete_def upcall_def split: if_splits)
qed

lemma set_action_result_invariant:
  assumes i: "stage_invariant env d"
    and st: "action_state d = IMG_ACQUIRE_STATE_AWAIT_FINGER_ON
         \<or> action_state d = IMG_ACQUIRE_STATE_AWAIT_IMAGE"
  shows "stage_invariant env (fpi_imgdev_set_action_result d result)"
proof -
  from i st have "enroll_stage d < nr_enroll_stages (parent d)"
    by (auto dest: stage_invariant_awaiting)
  with i show ?thesis
    by (auto simp add: fpi_imgdev_set_action_result_def stage_invariant_def)
qed

lemma abort_scan_invariant:
  assumes i: "stage_invariant env d"
    and st: "action_state d = IMG_ACQUIRE_STATE_AWAIT_FINGER_ON
         \<or> action_state d = IMG_ACQUIRE_STATE_AWAIT_IMAGE"
    and r: "fpi_imgdev_abort_scan drv d result = (d', tr)"
  shows "stage_invariant env d'"
proof -
  from i st have "enroll_stage d < nr_enroll_stages (parent d)"
    by (auto dest: stage_invariant_awaiting)
  with i r show ?thesis
    by (auto simp add: fpi_imgdev_abort_scan_def stage_invariant_def)
qed

lemma session_error_invariant:
  assumes c: "caller_returns_or_cancels env" and i: "stage_invariant env d"
    and r: "fpi_imgdev_session_error env d err = Inr (d', tr)"
  shows "stage_invariant env d'"
  using r i caller_keeps_invariant [OF c i]
  by (cases "action d")
     (auto simp add: fpi_imgdev_session_error_def BUG_ON_def upcall_def split: if_splits)

lemma deactivate_complete_invariant:
  assumes c: "caller_returns_or_cancels env" and i: "stage_invariant env d"
    and r: "fpi_imgdev_deactivate_complete env d = (d', tr)"
  shows "stage_invariant env d'"
proof -
  have "stage_invariant env (x\<lparr>action := IMG_ACTION_NONE,
      action_state := IMG_ACQUIRE_STATE_NONE\<rparr>)" if "stage_invariant env x" for x
    using that by (auto simp add: stage_invariant_def)
  with r i caller_keeps_invariant [OF c i] show ?thesis
    by (cases "action d")
       (auto simp add: fpi_imgdev_deactivate_complete_def upcall_def)
qed

lemma generic_acquire_stop_invariant:
  "stage_invariant env d \<Longrightarrow> stage_invariant env (fst (generic_acquire_stop drv d))"
  by (auto simp add: generic_acquire_stop_def stage_invariant_def)

lemma stop_action_invariant:
  assumes i: "stage_invariant env d"
    and r: "stop_action env drv d a = Some (r0, d', tr)"
  shows "stage_invariant env d'"
proof -
  from r have "d' = fst (generic_acquire_stop drv d)
      \<or> d' = (fst (generic_acquire_stop drv d))\<lparr>identify_match_offset := 0\<rparr>"
    by (cases a)
       (auto simp add: stop_action_def img_dev_enroll_stop_def img_dev_verify_stop_def
          img_dev_identify_stop_def img_dev_capture_stop_def BUG_ON_def
          split: if_splits sum.splits prod.splits)
  with generic_acquire_stop_invariant [OF i, of drv] show ?thesis
    by (auto simp add: stage_invariant_fields)
qed

lemma start_action_invariant:
  assumes p: "0 < nr_enroll_stages (parent d)" "nr_enroll_stages (parent d) \<le> INT_MAX"
    and r: "start_action drv d a = Some (r0, d', tr)"
  shows "stage_invariant env d' \<or> d' = d"
  using r p
  by (cases a)
     (auto simp add: start_action_def img_dev_enroll_start_def img_dev_verify_start_def
        img_dev_identify_start_def img_dev_capture_start_def generic_acquire_start_def
        stage_invariant_def Let_def split: if_splits prod.splits)

lemma step_invariant:
  assumes c: "caller_returns_or_cancels env" and i: "stage_invariant env d"
    and t: "in_turn d i"
    and r: "step env drv d i = Some (d', tr)"
  shows "stage_invariant env d'"
proof (cases i)
  case (Start a)
  with r obtain r0 where "start_action drv d a = Some (r0, d', tr)" by auto
  from start_action_invariant [OF stage_invariant_positive(1) [OF i]
      stage_invariant_positive(2) [OF i] this, of env] i
  show ?thesis by auto
next
  case (Activate_complete status)
  with r c i t show ?thesis by (auto intro: activate_complete_invariant)
next
  case (Set_action_result result)
  with r i t show ?thesis by (auto intro: set_action_result_invariant)
next
  case (Finger_status present)
  with r c i show ?thesis by (auto intro: report_finger_status_invariant)
next
  case (Image_captured img)
  with r i show ?thesis by (auto split: sum.splits intro: image_captured_invariant)
next
  case (Abort_scan result)
  with r i t show ?thesis by (auto intro: abort_scan_invariant)
next
  case (Session_error err)
  with r c i show ?thesis by (auto split: sum.splits intro: session_error_invariant)
next
  case (Stop a)
  with r obtain r0 where "stop_action env drv d a = Some (r0, d', tr)" by auto
  with i show ?thesis by (rule stop_action_invariant)
next
  case Deactivate_complete
  with r c i show ?thesis by (auto intro: deactivate_complete_invariant)
qed

lemma run_invariant:
  assumes c: "caller_returns_or_cancels env"
  shows "stage_invariant env d \<Longrightarrow> driver_in_turn env drv inputs d \<Longrightarrow>
         run env drv inputs (d, tr) = Some (d', tr') \<Longrightarrow> stage_invariant env d'"
proof (induction inputs arbitrary: d tr)
  case Nil
  then show ?case by simp
next
  case (Cons i inputs)
  from Cons.prems(3) obtain d1 tr1 where s: "step env drv d i = Some (d1, tr1)"
    and rest: "run env drv inputs (d1, tr @ tr1) = Some (d', tr')"
    by (auto split: option.splits)
  from Cons.prems(2) s have t: "in_turn d i" and ts: "driver_in_turn env drv inputs d1"
    by simp_all
  from step_invariant [OF c Cons.prems(1) t s] have "stage_invariant env d1" .
  from Cons.IH [OF this ts rest] show ?case .
qed

lemma sample_enrollment_runs:
  "map_option (\<lambda>(d, tr). (enroll_stage d, action_result d, action_state d))
     (run sample_env sample_driver sample_enrollment (sample_dev, []))
   = Some (5, 1, IMG_ACQUIRE_STATE_AWAIT_FINGER_OFF)"
  by (simp add: model_defs sample_defs Let_def numeral_eq_Suc)

text \<open>
  C4 (as amended). Every start resets the stage count to 0. An accepted enroll cycle (the
  device awaits an image with no result recorded, sanitation and extraction succeed, the
  image has at least 10 minutiae and the template holds its one item) on a stage count
  that is an \<^verbatim>\<open>int\<close> below \<open>INT_MAX\<close> adds exactly one to it, and the result is \<^verbatim>\<open>FP_ENROLL_COMPLETE\<close> if the
  new count equals \<^verbatim>\<open>nr_enroll_stages\<close> and \<^verbatim>\<open>FP_ENROLL_PASS\<close> otherwise. On a device with
  a positive stage count (\<^verbatim>\<open>img_dev_open\<close> sets 5), after an enroll start and any further
  sequence of calls that is in turn, the stage count does not exceed
  \<^verbatim>\<open>nr_enroll_stages\<close>, as long as callbacks only return or cancel.
\<close>

theorem enroll_stage_counts_accepted_cycles:
  assumes "caller_returns_or_cancels env"
    and "0 < nr_enroll_stages (parent d0)" and "nr_enroll_stages (parent d0) \<le> INT_MAX"
  shows "enroll_stage (fst (snd (generic_acquire_start drv d0 a))) = 0
       \<and> (action d = IMG_ACTION_ENROLL
            \<and> action_state d = IMG_ACQUIRE_STATE_AWAIT_IMAGE \<and> action_result d = 0
            \<and> sanitize_image env drv img = (r, img1) \<and> \<not> r < 0
            \<and> fpi_img_to_print_data env (fp_img_standardize env img1) = (r2, img3, Some p)
            \<and> \<not> r2 < 0 \<and> minutiae img3 = Some n \<and> 10 \<le> n \<and> length (prints p) = 1
            \<and> INT_MIN \<le> enroll_stage d \<and> enroll_stage d < INT_MAX \<longrightarrow>
          (\<exists>d' tr. fpi_imgdev_image_captured env drv d img = Inr (d', tr)
             \<and> enroll_stage d' = enroll_stage d + 1
             \<and> action_result d' =
                 (if enroll_stage d + 1 = nr_enroll_stages (parent d)
                  then FP_ENROLL_COMPLETE env else FP_ENROLL_PASS env)))
       \<and> (run env drv (Start IMG_ACTION_ENROLL # inputs) (d0, tr0) = Some (d1, tr1)
            \<and> driver_in_turn env drv (Start IMG_ACTION_ENROLL # inputs) d0 \<longrightarrow>
            enroll_stage d1 \<le> nr_enroll_stages (parent d1))"
proof (intro conjI impI)
  show "enroll_stage (fst (snd (generic_acquire_start drv d0 a))) = 0"
    by (simp add: generic_acquire_start_def Let_def split: prod.splits)
next
  assume h: "action d = IMG_ACTION_ENROLL
            \<and> action_state d = IMG_ACQUIRE_STATE_AWAIT_IMAGE \<and> action_result d = 0
            \<and> sanitize_image env drv img = (r, img1) \<and> \<not> r < 0
            \<and> fpi_img_to_print_data env (fp_img_standardize env img1) = (r2, img3, Some p)
            \<and> \<not> r2 < 0 \<and> minutiae img3 = Some n \<and> 10 \<le> n \<and> length (prints p) = 1
            \<and> INT_MIN \<le> enroll_stage d \<and> enroll_stage d < INT_MAX"
  then have "action d \<noteq> IMG_ACTION_CAPTURE" by simp
  with h have "fpi_imgdev_image_captured env drv d img =
      image_captured_decide env drv (d\<lparr>acquire_img := Some img3\<rparr>) (Some p)"
    using image_captured_after_sanitation [of d env drv img r img1 r2 img3 "Some p"]
    by simp
  moreover from h obtain it where "prints p = [it]"
    by (auto simp add: length_Suc_conv)
  moreover from h have "int_wrap (enroll_stage d + 1) = enroll_stage d + 1"
    by (intro int_wrap_in_range) (simp_all add: INT_MIN_def)
  ultimately show "\<exists>d' tr. fpi_imgdev_image_captured env drv d img = Inr (d', tr)
             \<and> enroll_stage d' = enroll_stage d + 1
             \<and> action_result d' =
                 (if enroll_stage d + 1 = nr_enroll_stages (parent d)
                  then FP_ENROLL_COMPLETE env else FP_ENROLL_PASS env)"
    using h by (simp add: image_captured_decide_def BUG_ON_def next_state_def Let_def)
next
  assume "run env drv (Start IMG_ACTION_ENROLL # inputs) (d0, tr0) = Some (d1, tr1)
            \<and> driver_in_turn env drv (Start IMG_ACTION_ENROLL # inputs) d0"
  then obtain d' tr' where s: "step env drv d0 (Start IMG_ACTION_ENROLL) = Some (d', tr')"
    and rest: "run env drv inputs (d', tr0 @ tr') = Some (d1, tr1)"
    and turn: "driver_in_turn env drv inputs d'"
    by (auto split: option.splits)
  from s assms(2,3) have "stage_invariant env d'"
    by (auto simp add: start_action_def img_dev_enroll_start_def generic_acquire_start_def
        stage_invariant_def Let_def split: prod.splits)
  from run_invariant [OF assms(1) this turn rest]
  show "enroll_stage d1 \<le> nr_enroll_stages (parent d1)"
    by (auto simp add: stage_invariant_def)
qed

lemma sample_enrollment_in_turn:
  "driver_in_turn sample_env sample_driver sample_enrollment sample_dev"
  by (simp add: model_defs sample_defs Let_def numeral_eq_Suc)

theorem enroll_stage_counts_accepted_cycles_witness:
  "caller_returns_or_cancels sample_env
   \<and> 0 < nr_enroll_stages (parent sample_dev)
   \<and> nr_enroll_stages (parent sample_dev) \<le> INT_MAX
   \<and> enroll_stage (fst (snd (generic_acquire_start sample_driver
         (sample_dev\<lparr>enroll_stage := 3\<rparr>) IMG_ACTION_ENROLL))) = 0
   \<and> map_sum id (\<lambda>(d, tr). (enroll_stage d, action_result d))
        (fpi_imgdev_image_captured sample_env sample_driver
           ((sample_awaiting_image IMG_ACTION_ENROLL)\<lparr>enroll_stage := 3\<rparr>) (sample_img 10))
      = Inr (4, FP_ENROLL_PASS sample_env)
   \<and> map_sum id (\<lambda>(d, tr). (enroll_stage d, action_result d))
        (fpi_imgdev_image_captured sample_env sample_driver
           ((sample_awaiting_image IMG_ACTION_ENROLL)\<lparr>enroll_stage := 4\<rparr>) (sample_img 10))
      = Inr (5, FP_ENROLL_COMPLETE sample_env)
   \<and> driver_in_turn sample_env sample_driver sample_enrollment sample_dev
   \<and> run sample_env sample_driver sample_enrollment (sample_dev, []) \<noteq> None
   \<and> enroll_stage (fst (the (run sample_env sample_driver sample_enrollment (sample_dev, []))))
      = 5
   \<and> nr_enroll_stages
        (parent (fst (the (run sample_env sample_driver sample_enrollment (sample_dev, [])))))
      = 5"
proof -
  have run: "run sample_env sample_driver
      (Start IMG_ACTION_ENROLL # tl sample_enrollment) (sample_dev, []) =
      Some (fst (the (run sample_env sample_driver sample_enrollment (sample_dev, []))),
            snd (the (run sample_env sample_driver sample_enrollment (sample_dev, []))))"
    using sample_enrollment_runs by (auto simp add: sample_enrollment_def)
  have turn: "driver_in_turn sample_env sample_driver
      (Start IMG_ACTION_ENROLL # tl sample_enrollment) sample_dev"
    using sample_enrollment_in_turn by (simp add: sample_enrollment_def)
  have pos: "0 < nr_enroll_stages (parent sample_dev)"
    and le: "nr_enroll_stages (parent sample_dev) \<le> INT_MAX"
    by (simp_all add: sample_dev_def INT_MAX_def)
  note w = enroll_stage_counts_accepted_cycles [OF sample_env_caller pos le,
      where drv = sample_driver and inputs = "tl sample_enrollment" and ?tr0.0 = "[]"
        and ?d1.0 = "fst (the (run sample_env sample_driver sample_enrollment (sample_dev, [])))"
        and ?tr1.0 = "snd (the (run sample_env sample_driver sample_enrollment (sample_dev, [])))"
        and a = IMG_ACTION_ENROLL
        and d = "(sample_awaiting_image IMG_ACTION_ENROLL)\<lparr>enroll_stage := 4\<rparr>"
        and img = "sample_img 10" and r = 0 and ?img1.0 = "sample_img 10"
        and ?r2.0 = 0 and ?img3.0 = "(sample_img 10)\<lparr>minutiae := Some 10\<rparr>"
        and p = "sample_template 10" and n = 10]
  from w run turn have "enroll_stage (fst (the (run sample_env sample_driver sample_enrollment
      (sample_dev, [])))) \<le> nr_enroll_stages (parent (fst (the (run sample_env sample_driver
      sample_enrollment (sample_dev, [])))))"
    by blast
  moreover from sample_enrollment_runs
  have "run sample_env sample_driver sample_enrollment (sample_dev, []) \<noteq> None"
    and "enroll_stage (fst (the (run sample_env sample_driver sample_enrollment
      (sample_dev, [])))) = 5"
    by (auto simp add: split_def)
  moreover have "nr_enroll_stages (parent (fst (the (run sample_env sample_driver
      sample_enrollment (sample_dev, []))))) = 5"
    by (simp add: model_defs sample_defs Let_def numeral_eq_Suc)
  moreover have "map_sum id (\<lambda>(d, tr). (enroll_stage d, action_result d))
        (fpi_imgdev_image_captured sample_env sample_driver
           ((sample_awaiting_image IMG_ACTION_ENROLL)\<lparr>enroll_stage := 3\<rparr>) (sample_img 10))
      = Inr (4, FP_ENROLL_PASS sample_env)"
    and "map_sum id (\<lambda>(d, tr). (enroll_stage d, action_result d))
        (fpi_imgdev_image_captured sample_env sample_driver
           ((sample_awaiting_image IMG_ACTION_ENROLL)\<lparr>enroll_stage := 4\<rparr>) (sample_img 10))
      = Inr (5, FP_ENROLL_COMPLETE sample_env)"
    by (simp_all add: model_defs sample_defs Let_def numeral_eq_Suc)
  moreover have "enroll_stage (fst (snd (generic_acquire_start sample_driver
         (sample_dev\<lparr>enroll_stage := 3\<rparr>) IMG_ACTION_ENROLL))) = 0"
    by (simp add: model_defs sample_defs)
  ultimately show ?thesis using sample_env_caller pos le turn sample_enrollment_in_turn
    by blast
qed

text \<open>
  C4 as stated fails in two ways. The functions do not test the state in which the
  driver calls them: after the sample enrollment has completed its 5 stages, an aborted
  scan with the result \<^verbatim>\<open>FP_ENROLL_PASS\<close>, a finger-off report (which re-arms the cycle), a
  finger-on report and one more accepted image leave the stage count at 6, above
  \<^verbatim>\<open>nr_enroll_stages\<close>, which is 5. And an accepted cycle on the stage count \<open>INT_MAX\<close>
  does not add one to it.
\<close>

theorem enroll_stage_exceeds_counterexample:
  "map_option (\<lambda>(d, tr). (enroll_stage d, nr_enroll_stages (parent d)))
     (run sample_env sample_driver
        (sample_enrollment @ [Abort_scan 3, Finger_status False, Finger_status True,
                              Image_captured (sample_img 10)])
        (sample_dev, []))
     = Some (6, 5)
   \<and> map_sum id (\<lambda>(d, tr). enroll_stage d)
        (fpi_imgdev_image_captured sample_env sample_driver
           ((sample_awaiting_image IMG_ACTION_ENROLL)\<lparr>enroll_stage := 2147483647\<rparr>)
           (sample_img 10))
     = Inr (- 2147483648)"
  by (simp add: model_defs sample_defs Let_def numeral_eq_Suc)

section \<open>Stopping an action\<close>

lemma generic_acquire_stop_trace:
  "filter is_result_callback (snd (generic_acquire_stop drv d)) = []"
  by (simp add: generic_acquire_stop_def dev_deactivate_def fp_print_data_free_def
      fp_img_free_def split: option.splits)

lemma stop_action_current:
  assumes "action d \<noteq> IMG_ACTION_NONE"
  shows "stop_action env drv d (action d) =
           Some (0, (if action d = IMG_ACTION_IDENTIFY
                     then (fst (generic_acquire_stop drv d))\<lparr>identify_match_offset := 0\<rparr>
                     else fst (generic_acquire_stop drv d)),
                 snd (generic_acquire_stop drv d))"
  using assms
  by (cases "action d")
     (simp_all add: stop_action_def img_dev_enroll_stop_def img_dev_verify_stop_def
        img_dev_identify_stop_def img_dev_capture_stop_def BUG_ON_def split: prod.splits)

text \<open>
  C9. Stopping the action in progress, in whatever acquisition state: the stop returns 0
  and leaves the device deactivating, with the action still set, the image, the acquired
  template and the enrollment accumulator null and the result 0; the call asks the
  driver to deactivate and releases what the three fields held, and it makes no result
  callback. The deactivation-complete that follows makes exactly one callback, the
  stopped notification of that action, and leaves the device with no action and in the
  acquisition state 0.
\<close>

theorem stop_releases_and_deactivates:
  assumes "action d \<noteq> IMG_ACTION_NONE"
  shows "\<exists>d1 tr1 d2.
           stop_action env drv d (action d) = Some (0, d1, tr1)
         \<and> action_state d1 = IMG_ACQUIRE_STATE_DEACTIVATING
         \<and> action d1 = action d
         \<and> acquire_img d1 = None \<and> acquire_data d1 = None \<and> enroll_data d1 = None
         \<and> action_result d1 = 0
         \<and> tr1 = dev_deactivate drv @ fp_print_data_free (acquire_data d)
                    @ fp_print_data_free (enroll_data d) @ fp_img_free (acquire_img d)
         \<and> filter is_result_callback tr1 = []
         \<and> fpi_imgdev_deactivate_complete env d1 =
             (d2, [case action d of
                     IMG_ACTION_ENROLL \<Rightarrow> Drvcb_enroll_stopped
                   | IMG_ACTION_VERIFY \<Rightarrow> Drvcb_verify_stopped
                   | IMG_ACTION_IDENTIFY \<Rightarrow> Drvcb_identify_stopped
                   | _ \<Rightarrow> Drvcb_capture_stopped])
         \<and> action d2 = IMG_ACTION_NONE
         \<and> action_state d2 = IMG_ACQUIRE_STATE_NONE"
proof -
  let ?d1 = "if action d = IMG_ACTION_IDENTIFY
             then (fst (generic_acquire_stop drv d))\<lparr>identify_match_offset := 0\<rparr>
             else fst (generic_acquire_stop drv d)"
  let ?tr1 = "snd (generic_acquire_stop drv d)"
  have a: "action ?d1 = action d" by (simp add: generic_acquire_stop_def)
  have "stop_action env drv d (action d) = Some (0, ?d1, ?tr1)"
    by (rule stop_action_current [OF assms])
  moreover have "action_state ?d1 = IMG_ACQUIRE_STATE_DEACTIVATING"
    and "acquire_img ?d1 = None" and "acquire_data ?d1 = None" and "enroll_data ?d1 = None"
    and "action_result ?d1 = 0"
    by (simp_all add: generic_acquire_stop_def)
  moreover have "?tr1 = dev_deactivate drv @ fp_print_data_free (acquire_data d)
                    @ fp_print_data_free (enroll_data d) @ fp_img_free (acquire_img d)"
    by (simp add: generic_acquire_stop_def)
  moreover have "filter is_result_callback ?tr1 = []"
    by (rule generic_acquire_stop_trace)
  moreover have "\<exists>d2. fpi_imgdev_deactivate_complete env ?d1 =
             (d2, [case action d of
                     IMG_ACTION_ENROLL \<Rightarrow> Drvcb_enroll_stopped
                   | IMG_ACTION_VERIFY \<Rightarrow> Drvcb_verify_stopped
                   | IMG_ACTION_IDENTIFY \<Rightarrow> Drvcb_identify_stopped
                   | _ \<Rightarrow> Drvcb_capture_stopped])
         \<and> action d2 = IMG_ACTION_NONE
         \<and> action_state d2 = IMG_ACQUIRE_STATE_NONE"
    using assms a
    by (cases "action d")
       (simp_all add: fpi_imgdev_deactivate_complete_def upcall_def del: if_split
          cong: if_cong)
  ultimately show ?thesis using a by blast
qed

theorem stop_releases_and_deactivates_witness:
  "action (sample_dev\<lparr>action := IMG_ACTION_ENROLL,
                     action_state := IMG_ACQUIRE_STATE_AWAIT_FINGER_OFF,
                     action_result := 3,
                     enroll_stage := 1,
                     enroll_data := Some (sample_template 10),
                     acquire_img := Some (sample_img 10)\<rparr>) \<noteq> IMG_ACTION_NONE
   \<and> stop_action sample_env sample_driver
        (sample_dev\<lparr>action := IMG_ACTION_ENROLL,
                    action_state := IMG_ACQUIRE_STATE_AWAIT_FINGER_OFF,
                    action_result := 3,
                    enroll_stage := 1,
                    enroll_data := Some (sample_template 10),
                    acquire_img := Some (sample_img 10)\<rparr>) IMG_ACTION_ENROLL
       = Some (0, sample_dev\<lparr>action := IMG_ACTION_ENROLL,
                              action_state := IMG_ACQUIRE_STATE_DEACTIVATING,
                              enroll_stage := 1\<rparr>,
               [Drv_deactivate, Print_data_free (sample_template 10),
                Img_free (sample_img 10)])
   \<and> fpi_imgdev_deactivate_complete sample_env
        (sample_dev\<lparr>action := IMG_ACTION_ENROLL,
                    action_state := IMG_ACQUIRE_STATE_DEACTIVATING,
                    enroll_stage := 1\<rparr>)
       = (sample_dev\<lparr>enroll_stage := 1\<rparr>, [Drvcb_enroll_stopped])"
  using stop_releases_and_deactivates
      [of "sample_dev\<lparr>action := IMG_ACTION_ENROLL,
                     action_state := IMG_ACQUIRE_STATE_AWAIT_FINGER_OFF,
                     action_result := 3,
                     enroll_stage := 1,
                     enroll_data := Some (sample_template 10),
                     acquire_img := Some (sample_img 10)\<rparr>" sample_env sample_driver]
  by (simp add: model_defs sample_defs Let_def)

section \<open>Finger-status reports\<close>

lemma enroll_complete_callback_template:
  assumes "action d = IMG_ACTION_ENROLL" and "action_result d = FP_ENROLL_COMPLETE env"
    and "\<not> (present \<and> action_state d = IMG_ACQUIRE_STATE_AWAIT_FINGER_ON)"
  shows "snd (fpi_imgdev_report_finger_status env drv d present) =
           [Drvcb_enroll_stage_completed (FP_ENROLL_COMPLETE env)
              (Some \<lparr>data_type = PRINT_DATA_NBIS_MINUTIAE,
                     prints = [fpi_print_data_item_new env (sizeof_xyt_struct env)]\<rparr>)
              (acquire_img d)]"
proof -
  from assms(3)
  have nf: "(present \<and> action_state d = IMG_ACQUIRE_STATE_AWAIT_FINGER_ON) = False"
    by simp
  show ?thesis using assms(1,2)
    by (simp add: fpi_imgdev_report_finger_status_def Let_def upcall_def nf
        fpi_print_data_new_def)
qed

lemma finger_present_awaiting_image_callback:
  assumes "action_state d = IMG_ACQUIRE_STATE_AWAIT_IMAGE" and "action d \<noteq> IMG_ACTION_NONE"
  shows "filter is_result_callback
           (snd (fpi_imgdev_report_finger_status env drv d True)) \<noteq> []"
  using assms
  by (cases "action d")
     (simp_all add: fpi_imgdev_report_finger_status_def Let_def upcall_def split_def)

text \<open>
  C1. What the code does at the end of the sample enrollment of five accepted cycles on
  an opened device: before the last finger-off report the device has done 5 stages, holds
  \<^verbatim>\<open>FP_ENROLL_COMPLETE\<close> and an accumulated template of 5 items; the finger-off report
  passes to the enroll-stage callback the template it allocated on entry, with its one
  new item, and sets \<^verbatim>\<open>enroll_data\<close> to null.
\<close>

theorem enroll_complete_passes_placeholder:
  "map_option (\<lambda>(d, tr). (enroll_stage d, action_result d,
        map_option (\<lambda>e. length (prints e)) (enroll_data d)))
     (run sample_env sample_driver (butlast sample_enrollment) (sample_dev, []))
     = Some (5, FP_ENROLL_COMPLETE sample_env, Some 5)
   \<and> map_option (\<lambda>(d, tr). (last tr, enroll_data d))
       (run sample_env sample_driver sample_enrollment (sample_dev, []))
     = Some (Drvcb_enroll_stage_completed (FP_ENROLL_COMPLETE sample_env)
               (Some \<lparr>data_type = PRINT_DATA_NBIS_MINUTIAE,
                      prints = [fpi_print_data_item_new sample_env
                                  (sizeof_xyt_struct sample_env)]\<rparr>)
               (Some ((sample_img 11)\<lparr>minutiae := Some 11\<rparr>)),
             None)"
  by (simp add: model_defs sample_defs Let_def numeral_eq_Suc)

text \<open>
  C2. What the code does on a finger-present report while the device awaits an image,
  here for a verify action right after the finger was first reported: the verify-result
  callback is made, with result 0 and no image.
\<close>

theorem finger_present_while_awaiting_image_reports:
  "run sample_env sample_driver
     [Start IMG_ACTION_VERIFY, Activate_complete 0, Finger_status True] (sample_dev, [])
     = Some (sample_dev\<lparr>action := IMG_ACTION_VERIFY,
                         action_state := IMG_ACQUIRE_STATE_AWAIT_IMAGE\<rparr>,
             [Drv_activate IMGDEV_STATE_AWAIT_FINGER_ON, Drvcb_verify_started 0,
              Drv_change_state IMGDEV_STATE_AWAIT_FINGER_ON,
              Drv_change_state IMGDEV_STATE_CAPTURE])
   \<and> fpi_imgdev_report_finger_status sample_env sample_driver
        (sample_dev\<lparr>action := IMG_ACTION_VERIFY,
                    action_state := IMG_ACQUIRE_STATE_AWAIT_IMAGE\<rparr>) True
     = (sample_dev\<lparr>action := IMG_ACTION_VERIFY,
                    action_state := IMG_ACQUIRE_STATE_AWAIT_IMAGE\<rparr>,
        [Drvcb_report_verify_result 0 None])"
  by (simp add: model_defs sample_defs Let_def)

end
